theory Spec2Isabelle
  imports Complex_Main
begin

section \<open>GENOMOS: genotype classification by melting temperature\<close>

text \<open>
  A shallow embedding of \<^verbatim>\<open>genomos.py\<close>. Python strings are \<open>string\<close>, Python's
  insertion-ordered dictionaries are association lists with distinct keys, floating-point
  values are idealised as \<open>real\<close> (a missing value, NaN in the source, is \<open>None\<close>), and
  every \<^verbatim>\<open>raise\<close> of the source is an \<open>Inl\<close> result. The state names stay the
  strings the source uses as dictionary keys.
\<close>

subsection \<open>Python string primitives\<close>

text \<open>\<^verbatim>\<open>s.split(sep)\<close> for a one-character separator.\<close>

fun py_split :: "char \<Rightarrow> string \<Rightarrow> string list" where
  "py_split sep [] = [[]]"
| "py_split sep (c # cs) =
     (if c = sep then [] # py_split sep cs
      else (case py_split sep cs of [] \<Rightarrow> [[c]] | w # ws \<Rightarrow> (c # w) # ws))"

text \<open>\<^verbatim>\<open>s.split(sep, 1)\<close>: at most one split, at the first separator.\<close>

definition py_split1 :: "char \<Rightarrow> string \<Rightarrow> string list" where
  "py_split1 sep s =
     (if sep \<in> set s
      then [takeWhile (\<lambda>c. c \<noteq> sep) s, tl (dropWhile (\<lambda>c. c \<noteq> sep) s)]
      else [s])"

text \<open>The ASCII characters that \<^verbatim>\<open>str.strip()\<close> removes.\<close>

definition is_space :: "char \<Rightarrow> bool" where
  "is_space c \<longleftrightarrow>
     c \<in> set [CHR 0x09, CHR 0x0A, CHR 0x0B, CHR 0x0C, CHR 0x0D,
              CHR 0x1C, CHR 0x1D, CHR 0x1E, CHR 0x1F, CHR 0x20]"

definition strip :: "string \<Rightarrow> string" where
  "strip s = rev (dropWhile is_space (rev (dropWhile is_space s)))"

definition lower_char :: "char \<Rightarrow> char" where
  "lower_char c =
     (case map_of (zip ''ABCDEFGHIJKLMNOPQRSTUVWXYZ'' ''abcdefghijklmnopqrstuvwxyz'') c of
        None \<Rightarrow> c
      | Some l \<Rightarrow> l)"

definition lower :: "string \<Rightarrow> string" where
  "lower s = map lower_char s"

definition startswith :: "string \<Rightarrow> string \<Rightarrow> bool" where
  "startswith s p \<longleftrightarrow> take (length p) s = p"

text \<open>\<^verbatim>\<open>str(n)\<close> for a non-negative integer, as the f-strings \<^verbatim>\<open>f"H{idx+1}"\<close> use it.\<close>

definition digit_char :: "nat \<Rightarrow> char" where
  "digit_char d = ''0123456789'' ! d"

function str_nat :: "nat \<Rightarrow> string" where
  "str_nat n = (if n < 10 then [digit_char n] else str_nat (n div 10) @ [digit_char (n mod 10)])"
  by pat_completeness auto
termination
  by (relation "measure id") auto

declare str_nat.simps [simp del]

text \<open>
  \<^verbatim>\<open>s.count(sub)\<close>: the number of non-overlapping occurrences of \<open>sub\<close>, scanning from
  the left; for the empty \<open>sub\<close> Python answers \<open>len(s) + 1\<close>.
\<close>

fun count_desde :: "string \<Rightarrow> nat \<Rightarrow> string \<Rightarrow> nat" where
  "count_desde sub skip [] = 0"
| "count_desde sub skip (c # cs) =
     (if 0 < skip then count_desde sub (skip - 1) cs
      else if startswith (c # cs) sub then Suc (count_desde sub (length sub - 1) cs)
      else count_desde sub 0 cs)"

definition py_count :: "string \<Rightarrow> string \<Rightarrow> nat" where
  "py_count s sub = (if sub = [] then length s + 1 else count_desde sub 0 s)"

subsection \<open>Insertion-ordered dictionaries\<close>

text \<open>
  \<^verbatim>\<open>d[k] = v\<close>: an existing key keeps its place and takes the new value, a new key goes
  to the end.
\<close>

fun dict_set :: "'k \<Rightarrow> 'v \<Rightarrow> ('k \<times> 'v) list \<Rightarrow> ('k \<times> 'v) list" where
  "dict_set k v [] = [(k, v)]"
| "dict_set k v (p # ps) = (if fst p = k then (k, v) # ps else p # dict_set k v ps)"

definition dict_get :: "('k \<times> 'v) list \<Rightarrow> 'k \<Rightarrow> 'v option" where
  "dict_get d k = map_of d k"

definition keys :: "('k \<times> 'v) list \<Rightarrow> 'k list" where
  "keys d = map fst d"

definition dict_values :: "('k \<times> 'v) list \<Rightarrow> 'v list" where
  "dict_values d = map snd d"

subsection \<open>Errors\<close>

text \<open>
  The exceptions caught by the \<^verbatim>\<open>except Exception\<close> of the reference parser, and the
  errors a run ends with.
\<close>

datatype causa =
    PocosValores
  | DemasiadosValores
  | FloatInvalido string
  | EstadoNoReconocido string

datatype error =
    ErrorCantidad int nat
  | ArchivoNoEncontrado string
  | ErrorLectura string
  | ErrorFormato string causa
  | ColumnaNoEncontrada string
  | MinVacio
  | IndexError
  | KeyError string
  | ZeroDivisionError

subsection \<open>Reference parser\<close>

type_synonym tm_dict = "(string \<times> real) list"
type_synonym posiciones = "(string \<times> tm_dict) list"

text \<open>\<^verbatim>\<open>a, b = xs\<close>: unpacking into exactly two names.\<close>

fun desempaquetar2 :: "string list \<Rightarrow> causa + (string \<times> string)" where
  "desempaquetar2 [a, b] = Inr (a, b)"
| "desempaquetar2 (a # b # c # rest) = Inl DemasiadosValores"
| "desempaquetar2 xs = Inl PocosValores"

text \<open>The \<^verbatim>\<open>if/elif/else\<close> chain that normalises a state token (lines 91 to 98).\<close>

definition normalizar_estado :: "string \<Rightarrow> causa + string" where
  "normalizar_estado estado =
     (if startswith (lower estado) ''s'' then Inr ''Sensible''
      else if startswith (lower estado) ''h'' then Inr ''Heterocigoto''
      else if startswith (lower estado) ''r'' then Inr ''Resistente''
      else Inl (EstadoNoReconocido estado))"

text \<open>
  The inner loop over the \<^verbatim>\<open>STATE:VAL\<close> pairs of one entry. \<open>py_float\<close> stands for
  Python's \<^verbatim>\<open>float()\<close> on a string, \<open>None\<close> when it raises.
\<close>

fun procesar_estados :: "(string \<Rightarrow> real option) \<Rightarrow> string list \<Rightarrow> tm_dict \<Rightarrow> causa + tm_dict" where
  "procesar_estados py_float [] d = Inr d"
| "procesar_estados py_float (est # rest) d =
     (case desempaquetar2 (py_split CHR '':'' est) of
        Inl c \<Rightarrow> Inl c
      | Inr (estado0, valor) \<Rightarrow>
          (let estado = strip estado0 in
           case py_float valor of
             None \<Rightarrow> Inl (FloatInvalido valor)
           | Some v \<Rightarrow>
               (case normalizar_estado estado of
                  Inl c \<Rightarrow> Inl c
                | Inr estado_clave \<Rightarrow> procesar_estados py_float rest (dict_set estado_clave v d))))"

text \<open>The body of the \<^verbatim>\<open>try\<close> for one \<^verbatim>\<open>-t\<close> entry (lines 80 to 99).\<close>

definition procesar_entrada ::
  "(string \<Rightarrow> real option) \<Rightarrow> string \<Rightarrow> posiciones \<Rightarrow> causa + posiciones" where
  "procesar_entrada py_float tm_entry ps =
     (case desempaquetar2 (py_split1 CHR '':'' tm_entry) of
        Inl c \<Rightarrow> Inl c
      | Inr (pos, estados_str) \<Rightarrow>
          (let ps1 = dict_set pos [] ps in
           case procesar_estados py_float (py_split CHR '','' estados_str) [] of
             Inl c \<Rightarrow> Inl c
           | Inr d \<Rightarrow> Inr (dict_set pos d ps1)))"

text \<open>The loop over \<^verbatim>\<open>args.tm\<close> (lines 76 to 102), every exception wrapped with its entry.\<close>

fun procesar_tm :: "(string \<Rightarrow> real option) \<Rightarrow> string list \<Rightarrow> posiciones \<Rightarrow> error + posiciones" where
  "procesar_tm py_float [] ps = Inr ps"
| "procesar_tm py_float (tm_entry # rest) ps =
     (case procesar_entrada py_float tm_entry ps of
        Inl c \<Rightarrow> Inl (ErrorFormato tm_entry c)
      | Inr ps' \<Rightarrow> procesar_tm py_float rest ps')"

subsection \<open>Loaded table and column check\<close>

text \<open>
  What \<^verbatim>\<open>pd.read_excel\<close> hands over: the column names and, for every sample, the cell
  under each column. A cell holds a number, some text, or nothing.
\<close>

datatype celda = Numero real | Texto string | Vacia

record tabla =
  columnas :: "string list"
  filas :: "(string \<Rightarrow> celda) list"

text \<open>
  \<^verbatim>\<open>pd.to_numeric(..., errors='coerce')\<close> on one cell: \<open>pd_numeric\<close> stands for
  pandas' reading of a text cell as a number, and whatever is not numeric becomes missing.
\<close>

definition to_numeric :: "(string \<Rightarrow> real option) \<Rightarrow> celda \<Rightarrow> real option" where
  "to_numeric pd_numeric c =
     (case c of Numero x \<Rightarrow> Some x | Texto s \<Rightarrow> pd_numeric s | Vacia \<Rightarrow> None)"

text \<open>The loop of lines 109 to 115: every locus needs its \<^verbatim>\<open>Tm_<pos>\<close> column.\<close>

fun verificar_columnas :: "string list \<Rightarrow> string list \<Rightarrow> string list \<Rightarrow> error + string list" where
  "verificar_columnas cols [] columnas_usadas = Inr columnas_usadas"
| "verificar_columnas cols (pos # rest) columnas_usadas =
     (let col_name = ''Tm_'' @ pos in
      if col_name \<notin> set cols then Inl (ColumnaNoEncontrada col_name)
      else verificar_columnas cols rest (columnas_usadas @ [col_name]))"

text \<open>The measured Tm of a sample at a locus, after the coercion of line 114.\<close>

definition tm_de_fila :: "(string \<Rightarrow> real option) \<Rightarrow> (string \<Rightarrow> celda) \<Rightarrow> string \<Rightarrow> real option" where
  "tm_de_fila pd_numeric fila pos = to_numeric pd_numeric (fila (''Tm_'' @ pos))"

subsection \<open>Classifier\<close>

text \<open>
  Lines 124 to 126 and 139: one absolute difference per configured state, in the
  insertion order of the locus's dictionary.
\<close>

definition diferencias :: "real \<Rightarrow> tm_dict \<Rightarrow> (string \<times> real) list" where
  "diferencias tm d = map (\<lambda>(estado, tm_val). (estado, \<bar>tm - tm_val\<bar>)) d"

text \<open>
  \<^verbatim>\<open>min(diffs, key=diffs.get)\<close>: the running best is replaced only by a strictly smaller
  value; an empty argument raises.
\<close>

fun min_desde :: "string \<times> real \<Rightarrow> (string \<times> real) list \<Rightarrow> string" where
  "min_desde best [] = fst best"
| "min_desde best (x # xs) = (if snd x < snd best then min_desde x xs else min_desde best xs)"

definition py_min_clave :: "(string \<times> real) list \<Rightarrow> error + string" where
  "py_min_clave ds = (case ds of [] \<Rightarrow> Inl MinVacio | x # xs \<Rightarrow> Inr (min_desde x xs))"

definition genotipo_por_posicion :: "tm_dict \<Rightarrow> real option \<Rightarrow> error + string option" where
  "genotipo_por_posicion d tm =
     (case tm of
        None \<Rightarrow> Inr None
      | Some t \<Rightarrow> (case py_min_clave (diferencias t d) of Inl e \<Rightarrow> Inl e | Inr estado \<Rightarrow> Inr (Some estado)))"

subsection \<open>Genotype composer\<close>

definition no_determinado :: string where
  "no_determinado = ''No se pudo determinar''"

text \<open>
  The \<^verbatim>\<open>if/elif\<close> chain of lines 159 to 164: what one determined state appends to
  \<open>genotipo\<close> at index \<open>idx\<close>. A state that is none of the three appends nothing.
\<close>

definition agregar_estado :: "nat \<Rightarrow> string \<Rightarrow> string list \<Rightarrow> string list" where
  "agregar_estado idx estado genotipo =
     (if estado = ''Sensible'' then genotipo @ [''S'']
      else if estado = ''Heterocigoto'' then genotipo @ [''H'' @ str_nat (idx + 1)]
      else if estado = ''Resistente'' then genotipo @ [''R'' @ str_nat (idx + 1)]
      else genotipo)"

text \<open>
  The loop of \<^verbatim>\<open>genotipo_resultante_dinamico\<close> from index \<open>idx\<close> on, \<open>genotipo\<close> being the
  tokens appended so far.
\<close>

fun genotipo_desde :: "nat \<Rightarrow> string option list \<Rightarrow> string list \<Rightarrow> string" where
  "genotipo_desde idx [] genotipo = concat genotipo"
| "genotipo_desde idx (None # rest) genotipo = no_determinado"
| "genotipo_desde idx (Some estado # rest) genotipo =
     genotipo_desde (idx + 1) rest (agregar_estado idx estado genotipo)"

definition genotipo_resultante_dinamico :: "string option list \<Rightarrow> string" where
  "genotipo_resultante_dinamico estados = genotipo_desde 0 estados []"

subsection \<open>Per-sample result\<close>

fun mapM_sum :: "('a \<Rightarrow> error + 'b) \<Rightarrow> 'a list \<Rightarrow> error + 'b list" where
  "mapM_sum f [] = Inr []"
| "mapM_sum f (x # xs) =
     (case f x of
        Inl e \<Rightarrow> Inl e
      | Inr y \<Rightarrow> (case mapM_sum f xs of Inl e \<Rightarrow> Inl e | Inr ys \<Rightarrow> Inr (y # ys)))"

text \<open>
  One row of the table written at line 175: the \<^verbatim>\<open>Tm_<pos>\<close> values, the
  \<^verbatim>\<open>Estado_<pos>\<close> values and, with more than one locus, \<^verbatim>\<open>Genotipo_Resultante\<close>.
\<close>

record resultado =
  tms :: "real option list"
  estados :: "string option list"
  genotipo :: "string option"

definition estados_de_fila ::
  "(string \<Rightarrow> real option) \<Rightarrow> posiciones \<Rightarrow> (string \<Rightarrow> celda) \<Rightarrow> error + string option list" where
  "estados_de_fila pd_numeric ps fila =
     mapM_sum (\<lambda>(pos, d). genotipo_por_posicion d (tm_de_fila pd_numeric fila pos)) ps"

definition clasificar_fila ::
  "(string \<Rightarrow> real option) \<Rightarrow> posiciones \<Rightarrow> (string \<Rightarrow> celda) \<Rightarrow> error + resultado" where
  "clasificar_fila pd_numeric ps fila =
     (case estados_de_fila pd_numeric ps fila of
        Inl e \<Rightarrow> Inl e
      | Inr es \<Rightarrow>
          Inr \<lparr> tms = map (\<lambda>pos. tm_de_fila pd_numeric fila pos) (keys ps),
                estados = es,
                genotipo = (if length ps > 1 then Some (genotipo_resultante_dinamico es) else None) \<rparr>)"

subsection \<open>Summary report\<close>

text \<open>True division: Python raises on a zero divisor.\<close>

definition py_div :: "real \<Rightarrow> real \<Rightarrow> error + real" where
  "py_div a b = (if b = 0 then Inl ZeroDivisionError else Inr (a / b))"

text \<open>\<^verbatim>\<open>Counter(xs)\<close>: one entry per distinct element, in order of first appearance.\<close>

definition counter_add :: "'k \<Rightarrow> ('k \<times> nat) list \<Rightarrow> ('k \<times> nat) list" where
  "counter_add k c = (case dict_get c k of None \<Rightarrow> dict_set k 1 c | Some n \<Rightarrow> dict_set k (n + 1) c)"

definition Counter :: "'k list \<Rightarrow> ('k \<times> nat) list" where
  "Counter xs = fold counter_add xs []"

text \<open>\<^verbatim>\<open>Series.dropna()\<close> on a column of states.\<close>

fun dropna :: "'a option list \<Rightarrow> 'a list" where
  "dropna [] = []"
| "dropna (None # xs) = dropna xs"
| "dropna (Some x # xs) = x # dropna xs"

text \<open>
  The lines of the text report. A data line carries the label, the count and the
  percentage as computed, before the two-decimal formatting of the f-string.
\<close>

datatype linea =
    TituloGenotipos
  | TituloAlelos
  | TituloEstados string
  | Cabecera string
  | Registro string nat real

text \<open>The rows \<^verbatim>\<open>f"{x}\t{c}\t{(c/total_muestras)*100:.2f}%"\<close> of lines 206-207 and 228-229.\<close>

definition registro_porcentaje :: "nat \<Rightarrow> string \<times> nat \<Rightarrow> error + linea" where
  "registro_porcentaje total_muestras p =
     (case py_div (real (snd p)) (real total_muestras) of
        Inl e \<Rightarrow> Inl e
      | Inr q \<Rightarrow> Inr (Registro (fst p) (snd p) (q * 100)))"

text \<open>Single locus (lines 220 to 229), from the \<^verbatim>\<open>Estado_<pos>\<close> column.\<close>

definition resumen_estados :: "posiciones \<Rightarrow> string option list \<Rightarrow> error + linea list" where
  "resumen_estados ps estados_col =
     (case keys ps of
        [] \<Rightarrow> Inl IndexError
      | pos # _ \<Rightarrow>
          (let total_muestras = length estados_col;
               conteo_estados = Counter (dropna estados_col) in
           case mapM_sum (registro_porcentaje total_muestras) conteo_estados of
             Inl e \<Rightarrow> Inl e
           | Inr regs \<Rightarrow> Inr ([TituloEstados pos, Cabecera ''Estado''] @ regs)))"

text \<open>Lines 191 to 194: the allele tokens, \<open>H<i>\<close> and \<open>R<i>\<close> per locus, then \<open>S\<close>.\<close>

definition alelos_posibles :: "nat \<Rightarrow> string list" where
  "alelos_posibles n =
     concat (map (\<lambda>idx. [''H'' @ str_nat (idx + 1), ''R'' @ str_nat (idx + 1)]) [0..<n]) @ [''S'']"

text \<open>\<^verbatim>\<open>recuento_alelos[a] += x\<close>: a missing key raises.\<close>

fun dict_sumar :: "string \<Rightarrow> nat \<Rightarrow> (string \<times> nat) list \<Rightarrow> error + (string \<times> nat) list" where
  "dict_sumar a x [] = Inl (KeyError a)"
| "dict_sumar a x (p # ps) =
     (if fst p = a then Inr ((a, snd p + x) # ps)
      else (case dict_sumar a x ps of Inl e \<Rightarrow> Inl e | Inr ps' \<Rightarrow> Inr (p # ps')))"

fun foldM_sum :: "('a \<Rightarrow> 's \<Rightarrow> error + 's) \<Rightarrow> 'a list \<Rightarrow> 's \<Rightarrow> error + 's" where
  "foldM_sum f [] s = Inr s"
| "foldM_sum f (x # xs) s = (case f x s of Inl e \<Rightarrow> Inl e | Inr s' \<Rightarrow> foldM_sum f xs s')"

text \<open>Lines 197 to 201: the dictionary of zeros, then the two nested loops.\<close>

definition contar_en_genotipo ::
  "string list \<Rightarrow> string \<Rightarrow> (string \<times> nat) list \<Rightarrow> error + (string \<times> nat) list" where
  "contar_en_genotipo alelos g rec =
     (if g \<noteq> no_determinado then foldM_sum (\<lambda>a r. dict_sumar a (py_count g a) r) alelos rec
      else Inr rec)"

definition recuento_alelos :: "string list \<Rightarrow> string list \<Rightarrow> error + (string \<times> nat) list" where
  "recuento_alelos alelos genotipos =
     foldM_sum (contar_en_genotipo alelos) genotipos (fold (\<lambda>a d. dict_set a 0 d) alelos [])"

text \<open>Line 214: one row of the allele table, with its guard on the total.\<close>

definition registro_alelo :: "(string \<times> nat) list \<Rightarrow> nat \<Rightarrow> string \<Rightarrow> error + linea" where
  "registro_alelo rec total_ale a =
     (case dict_get rec a of
        None \<Rightarrow> Inl (KeyError a)
      | Some n \<Rightarrow>
          (if total_ale > 0
           then (case py_div (real n) (real total_ale) of
                   Inl e \<Rightarrow> Inl e
                 | Inr q \<Rightarrow> Inr (Registro a n (q * 100)))
           else Inr (Registro a n 0)))"

text \<open>Several loci (lines 187 to 214), from the \<^verbatim>\<open>Genotipo_Resultante\<close> column.\<close>

definition resumen_alelos :: "nat \<Rightarrow> string list \<Rightarrow> error + linea list" where
  "resumen_alelos n_pos genotipos =
     (let total_muestras = length genotipos;
          conteo_genotipos = Counter genotipos;
          alelos = alelos_posibles n_pos in
      case recuento_alelos alelos genotipos of
        Inl e \<Rightarrow> Inl e
      | Inr rec \<Rightarrow>
          (case mapM_sum (registro_porcentaje total_muestras) conteo_genotipos of
             Inl e \<Rightarrow> Inl e
           | Inr regs_g \<Rightarrow>
               (let total_ale = sum_list (dict_values rec) in
                case mapM_sum (registro_alelo rec total_ale) alelos of
                  Inl e \<Rightarrow> Inl e
                | Inr regs_a \<Rightarrow>
                    Inr ([TituloGenotipos, Cabecera ''Genotipo''] @ regs_g
                         @ [TituloAlelos, Cabecera ''Alelo''] @ regs_a))))"

subsection \<open>The run\<close>

text \<open>
  The parsed command line and the outside world of a run: Python's \<^verbatim>\<open>float\<close>, pandas'
  numeric reading of a text cell, \<^verbatim>\<open>os.path.exists\<close> and \<^verbatim>\<open>pd.read_excel\<close> (\<open>None\<close>
  when it raises).
\<close>

text \<open>
  The fields \<^verbatim>\<open>file\<close>, \<^verbatim>\<open>output\<close> and \<^verbatim>\<open>txt\<close> of the source carry the suffix
  \<open>_arg\<close> here.
\<close>

record argumentos =
  num_mutaciones :: int
  file_arg :: string
  tm :: "string list"
  output_arg :: string
  txt_arg :: "string option"

record entorno =
  py_float :: "string \<Rightarrow> real option"
  pd_numeric :: "string \<Rightarrow> real option"
  path_exists :: "string \<Rightarrow> bool"
  read_excel :: "string \<Rightarrow> tabla option"

text \<open>What a run does to the outside world, in order.\<close>

datatype mensaje =
    ResultadosGuardados string
  | ResumenAlelosGuardado string
  | DistribucionEstadosGuardada string

datatype evento =
    ConsultaExiste string
  | LeeExcel string
  | EscribeExcel string "resultado list"
  | AbreTxt string
  | EscribeTxt string "linea list"
  | Imprime mensaje

text \<open>Reading the \<^verbatim>\<open>Genotipo_Resultante\<close> column and the first \<^verbatim>\<open>Estado_<pos>\<close> column.\<close>

definition columna_genotipo :: "resultado list \<Rightarrow> error + string list" where
  "columna_genotipo rs =
     mapM_sum (\<lambda>r. case genotipo r of None \<Rightarrow> Inl (KeyError ''Genotipo_Resultante'') | Some g \<Rightarrow> Inr g) rs"

definition columna_estado :: "resultado list \<Rightarrow> error + string option list" where
  "columna_estado rs =
     mapM_sum (\<lambda>r. case estados r of [] \<Rightarrow> Inl IndexError | e # _ \<Rightarrow> Inr e) rs"

text \<open>Lines 183 to 231: the optional text report.\<close>

definition escribir_txt ::
  "argumentos \<Rightarrow> posiciones \<Rightarrow> resultado list \<Rightarrow> evento list \<Rightarrow> evento list \<times> (error + unit)" where
  "escribir_txt args ps rs ev =
     (case txt_arg args of
        None \<Rightarrow> (ev, Inr ())
      | Some t \<Rightarrow>
          (if t = [] then (ev, Inr ())
           else if length ps > 1 then
             (case columna_genotipo rs of
                Inl e \<Rightarrow> (ev @ [AbreTxt t], Inl e)
              | Inr gs \<Rightarrow>
                  (case resumen_alelos (length ps) gs of
                     Inl e \<Rightarrow> (ev @ [AbreTxt t], Inl e)
                   | Inr ls \<Rightarrow>
                       (ev @ [AbreTxt t, EscribeTxt t ls, Imprime (ResumenAlelosGuardado t)], Inr ())))
           else
             (case columna_estado rs of
                Inl e \<Rightarrow> (ev @ [AbreTxt t], Inl e)
              | Inr col \<Rightarrow>
                  (case resumen_estados ps col of
                     Inl e \<Rightarrow> (ev @ [AbreTxt t], Inl e)
                   | Inr ls \<Rightarrow>
                       (ev @ [AbreTxt t, EscribeTxt t ls, Imprime (DistribucionEstadosGuardada t)],
                        Inr ())))))"

text \<open>\<^verbatim>\<open>main\<close>, after \<^verbatim>\<open>parse_args\<close>: the events of the run and how it ends.\<close>

definition main :: "entorno \<Rightarrow> argumentos \<Rightarrow> evento list \<times> (error + unit)" where
  "main env args =
     (if num_mutaciones args \<noteq> int (length (tm args))
      then ([], Inl (ErrorCantidad (num_mutaciones args) (length (tm args))))
      else if \<not> path_exists env (file_arg args)
      then ([ConsultaExiste (file_arg args)], Inl (ArchivoNoEncontrado (file_arg args)))
      else
        (case read_excel env (file_arg args) of
           None \<Rightarrow> ([ConsultaExiste (file_arg args), LeeExcel (file_arg args)], Inl (ErrorLectura (file_arg args)))
         | Some df \<Rightarrow>
             (let ev = [ConsultaExiste (file_arg args), LeeExcel (file_arg args)] in
              case procesar_tm (py_float env) (tm args) [] of
                Inl e \<Rightarrow> (ev, Inl e)
              | Inr ps \<Rightarrow>
                  (case verificar_columnas (columnas df) (keys ps) [] of
                     Inl e \<Rightarrow> (ev, Inl e)
                   | Inr columnas_usadas \<Rightarrow>
                       (case mapM_sum (clasificar_fila (pd_numeric env) ps) (filas df) of
                          Inl e \<Rightarrow> (ev, Inl e)
                        | Inr rs \<Rightarrow>
                            escribir_txt args ps rs
                              (ev @ [EscribeExcel (output_arg args) rs,
                                     Imprime (ResultadosGuardados (output_arg args))]))))))"

subsection \<open>Reading a report\<close>



subsection \<open>Well-formed reference mappings\<close>

text \<open>
  What the parser guarantees of its result: distinct position labels and, for every locus, a
  non-empty dictionary with distinct keys among the three state names.
\<close>

definition estados_validos :: "string set" where
  "estados_validos = {''Sensible'', ''Heterocigoto'', ''Resistente''}"

definition bien_formadas :: "posiciones \<Rightarrow> bool" where
  "bien_formadas ps \<longleftrightarrow>
     distinct (keys ps) \<and>
     (\<forall>p\<in>set ps. snd p \<noteq> [] \<and> distinct (keys (snd p)) \<and> set (keys (snd p)) \<subseteq> estados_validos)"

subsection \<open>Genotype tokens as the specification words them\<close>


subsection \<open>Reading a reference argument\<close>

text \<open>The position label of a \<^verbatim>\<open>-t\<close> entry: the text before its first colon.\<close>

definition posicion_de :: "string \<Rightarrow> string" where
  "posicion_de tm_entry = takeWhile (\<lambda>c. c \<noteq> CHR '':'') tm_entry"

text \<open>A string whose first character is the given letter, in either case.\<close>

definition primera_letra :: "char \<Rightarrow> char \<Rightarrow> string \<Rightarrow> bool" where
  "primera_letra minuscula mayuscula s \<longleftrightarrow>
     (case s of [] \<Rightarrow> False | x # _ \<Rightarrow> x = minuscula \<or> x = mayuscula)"

subsection \<open>Kinds of events and errors\<close>

text \<open>
  The events that write output (the table, the opening of the text report and its
  content), and the four validation and parse errors of a run.
\<close>

fun es_escritura :: "evento \<Rightarrow> bool" where
  "es_escritura (EscribeExcel p rs) = True"
| "es_escritura (AbreTxt p) = True"
| "es_escritura (EscribeTxt p ls) = True"
| "es_escritura ev = False"

fun es_error_validacion :: "error \<Rightarrow> bool" where
  "es_error_validacion (ErrorCantidad n k) = True"
| "es_error_validacion (ArchivoNoEncontrado p) = True"
| "es_error_validacion (ErrorFormato t c) = True"
| "es_error_validacion (ColumnaNoEncontrada c) = True"
| "es_error_validacion e = False"

subsection \<open>Allele occurrences as the specification words them\<close>

text \<open>
  The number of occurrences of a token across the genotype strings other than the
  undetermined one, an occurrence being what \<^verbatim>\<open>str.count\<close> counts, and the total over
  all allele tokens of \<open>n\<close> loci.
\<close>

definition ocurrencias :: "string list \<Rightarrow> string \<Rightarrow> nat" where
  "ocurrencias gs a = sum_list (map (\<lambda>g. py_count g a) (filter (\<lambda>g. g \<noteq> no_determinado) gs))"

definition total_ocurrencias :: "nat \<Rightarrow> string list \<Rightarrow> nat" where
  "total_ocurrencias n gs = sum_list (map (ocurrencias gs) (alelos_posibles n))"

text \<open>The \<open>H\<close> and \<open>R\<close> tokens alone, the allele list without its final \<open>S\<close>.\<close>

definition alelos_hr :: "nat \<Rightarrow> string list" where
  "alelos_hr n = concat (map (\<lambda>idx. [''H'' @ str_nat (idx + 1), ''R'' @ str_nat (idx + 1)]) [0..<n])"

subsection \<open>Order of the states of a reference argument\<close>



section \<open>Properties\<close>

subsection \<open>Dictionaries and counters\<close>

lemma keys_dict_set: "keys (dict_set k v d) = (if k \<in> set (keys d) then keys d else keys d @ [k])"
  by (induction d) (auto simp: keys_def)

lemma distinct_keys_dict_set: "distinct (keys d) \<Longrightarrow> distinct (keys (dict_set k v d))"
  by (simp add: keys_dict_set)

lemma dict_get_dict_set: "dict_get (dict_set k v d) k' = (if k' = k then Some v else dict_get d k')"
  by (induction d) (auto simp: dict_get_def)

lemma set_keys_dict_set: "set (keys (dict_set k v d)) = insert k (set (keys d))"
  by (auto simp: keys_dict_set)

lemma length_dict_set: "length (dict_set k v d) = (if k \<in> set (keys d) then length d else Suc (length d))"
  by (induction d) (auto simp: keys_def)



lemma dict_get_None_iff: "dict_get d k = None \<longleftrightarrow> k \<notin> set (keys d)"
  by (simp add: dict_get_def keys_def map_of_eq_None_iff)




lemma dict_get_counter_add:
  "dict_get (counter_add k c) k' =
     (if k' = k then Some (case dict_get c k of None \<Rightarrow> 1 | Some n \<Rightarrow> n + 1) else dict_get c k')"
  by (auto simp: counter_add_def dict_get_dict_set split: option.splits)

lemma dict_get_Some_keys: "dict_get d k = Some v \<Longrightarrow> k \<in> set (keys d)"
  using dict_get_None_iff[of d k] by auto

lemma set_keys_counter_add: "set (keys (counter_add k c)) = insert k (set (keys c))"
  by (auto simp: counter_add_def set_keys_dict_set split: option.splits)

lemma dict_get_fold_counter_add:
  "dict_get (fold counter_add xs c) k =
     (if k \<in> set xs \<or> k \<in> set (keys c)
      then Some (count_list xs k + (case dict_get c k of None \<Rightarrow> 0 | Some n \<Rightarrow> n))
      else None)"
proof (induction xs arbitrary: c)
  case Nil
  then show ?case by (auto simp: dict_get_None_iff split: option.splits)
next
  case (Cons x xs)
  have "dict_get (fold counter_add (x # xs) c) k = dict_get (fold counter_add xs (counter_add x c)) k"
    by simp
  also have "\<dots> = (if k \<in> set xs \<or> k \<in> set (keys (counter_add x c))
      then Some (count_list xs k + (case dict_get (counter_add x c) k of None \<Rightarrow> 0 | Some n \<Rightarrow> n))
      else None)"
    by (rule Cons.IH)
  also have "\<dots> = (if k \<in> set (x # xs) \<or> k \<in> set (keys c)
      then Some (count_list (x # xs) k + (case dict_get c k of None \<Rightarrow> 0 | Some n \<Rightarrow> n))
      else None)"
    by (auto simp: set_keys_counter_add dict_get_counter_add dict_get_None_iff
        dest: dict_get_Some_keys split: option.splits)
  finally show ?case .
qed

lemma dict_get_Counter:
  "dict_get (Counter xs) k = (if k \<in> set xs then Some (count_list xs k) else None)"
  using dict_get_fold_counter_add[of xs "[]" k] by (simp add: Counter_def keys_def dict_get_def)




lemma set_keys_Counter: "set (keys (Counter xs)) = set xs"
proof (rule set_eqI)
  fix k
  show "k \<in> set (keys (Counter xs)) \<longleftrightarrow> k \<in> set xs"
    using dict_get_Counter[of xs k] dict_get_None_iff[of "Counter xs" k] by (auto split: if_splits)
qed

subsection \<open>Single-locus summary\<close>

lemma mapM_sum_registro_porcentaje:
  "c = [] \<or> 0 < tot \<Longrightarrow>
   mapM_sum (registro_porcentaje tot) c =
     Inr (map (\<lambda>p. Registro (fst p) (snd p) (real (snd p) / real tot * 100)) c)"
  by (induction c) (auto simp: registro_porcentaje_def py_div_def)









subsection \<open>Minimum search\<close>

lemma min_desde_split:
  "\<exists>pre k v post. best # xs = pre @ (k, v) # post \<and> min_desde best xs = k
      \<and> (\<forall>p\<in>set pre. v < snd p) \<and> (\<forall>p\<in>set post. v \<le> snd p)"
proof (induction xs arbitrary: best)
  case Nil
  have "[best] = [] @ (fst best, snd best) # []" by simp
  then show ?case by fastforce
next
  case (Cons x xs)
  show ?case
  proof (cases "snd x < snd best")
    case True
    from Cons.IH[of x] obtain pre k v post where
      s: "x # xs = pre @ (k, v) # post" and m: "min_desde x xs = k"
      and a: "\<forall>p\<in>set pre. v < snd p" and b: "\<forall>p\<in>set post. v \<le> snd p"
      by blast
    have "v \<le> snd x"
    proof (cases pre)
      case Nil
      with s show ?thesis by simp
    next
      case (Cons y ys)
      with s a show ?thesis by auto
    qed
    with True have vb: "v < snd best" by simp
    from True m have mm: "min_desde best (x # xs) = k" by simp
    from s have ss: "best # x # xs = (best # pre) @ (k, v) # post" by simp
    from a vb have aa: "\<forall>p\<in>set (best # pre). v < snd p" by simp
    from ss mm aa b have
      "best # x # xs = (best # pre) @ (k, v) # post \<and> min_desde best (x # xs) = k
        \<and> (\<forall>p\<in>set (best # pre). v < snd p) \<and> (\<forall>p\<in>set post. v \<le> snd p)"
      by blast
    then show ?thesis by blast
  next
    case False
    from Cons.IH[of best] obtain pre k v post where
      s: "best # xs = pre @ (k, v) # post" and m: "min_desde best xs = k"
      and a: "\<forall>p\<in>set pre. v < snd p" and b: "\<forall>p\<in>set post. v \<le> snd p"
      by blast
    show ?thesis
    proof (cases pre)
      case Nil
      with s have e: "best = (k, v)" "xs = post" by auto
      with False have vx: "v \<le> snd x" by simp
      from False m have mm: "min_desde best (x # xs) = k" by simp
      from e have ss: "best # x # xs = [] @ (k, v) # (x # post)" by simp
      from b vx have bb: "\<forall>p\<in>set (x # post). v \<le> snd p" by simp
      from ss mm bb have
        "best # x # xs = [] @ (k, v) # (x # post) \<and> min_desde best (x # xs) = k
          \<and> (\<forall>p\<in>set []. v < snd p) \<and> (\<forall>p\<in>set (x # post). v \<le> snd p)"
        by simp
      then show ?thesis by blast
    next
      case (Cons y ys)
      with s have e: "y = best" "xs = ys @ (k, v) # post" by auto
      with a Cons have "v < snd best" by simp
      with False have vx: "v < snd x" by simp
      from False m have mm: "min_desde best (x # xs) = k" by simp
      from e have ss: "best # x # xs = (best # x # ys) @ (k, v) # post" by simp
      from a Cons e vx have aa: "\<forall>p\<in>set (best # x # ys). v < snd p" by simp
      from ss mm aa b have
        "best # x # xs = (best # x # ys) @ (k, v) # post \<and> min_desde best (x # xs) = k
          \<and> (\<forall>p\<in>set (best # x # ys). v < snd p) \<and> (\<forall>p\<in>set post. v \<le> snd p)"
        by blast
      then show ?thesis by blast
    qed
  qed
qed

lemma py_min_clave_split:
  assumes "ds \<noteq> []"
  shows "\<exists>pre k v post. ds = pre @ (k, v) # post \<and> py_min_clave ds = Inr k
      \<and> (\<forall>p\<in>set pre. v < snd p) \<and> (\<forall>p\<in>set post. v \<le> snd p)"
proof -
  from assms obtain x xs where ds: "ds = x # xs" by (cases ds) auto
  from min_desde_split[of x xs] ds show ?thesis by (simp add: py_min_clave_def)
qed

lemma diferencias_split:
  assumes "diferencias t d = pre @ (k, v) # post"
  shows "\<exists>dpre w dpost. d = dpre @ (k, w) # dpost \<and> v = \<bar>t - w\<bar>
           \<and> pre = diferencias t dpre \<and> post = diferencias t dpost"
proof -
  from assms obtain dpre x dpost where
    d: "d = dpre @ x # dpost" and p: "pre = diferencias t dpre"
    and x: "(k, v) = (case x of (estado, tm_val) \<Rightarrow> (estado, \<bar>t - tm_val\<bar>))"
    and q: "post = diferencias t dpost"
    unfolding diferencias_def by (auto simp: map_eq_append_conv map_eq_Cons_conv)
  obtain e w where "x = (e, w)" by (cases x)
  with d p x q show ?thesis by auto
qed

lemma genotipo_por_posicion_split:
  assumes "d \<noteq> []"
  shows "\<exists>pre e v post. d = pre @ (e, v) # post
      \<and> genotipo_por_posicion d (Some t) = Inr (Some e)
      \<and> (\<forall>p\<in>set pre. \<bar>t - v\<bar> < \<bar>t - snd p\<bar>)
      \<and> (\<forall>p\<in>set post. \<bar>t - v\<bar> \<le> \<bar>t - snd p\<bar>)"
proof -
  from assms have "diferencias t d \<noteq> []" by (simp add: diferencias_def)
  from py_min_clave_split[OF this] obtain pre k v post where
    s: "diferencias t d = pre @ (k, v) # post" and m: "py_min_clave (diferencias t d) = Inr k"
    and a: "\<forall>p\<in>set pre. v < snd p" and b: "\<forall>p\<in>set post. v \<le> snd p" by blast
  from diferencias_split[OF s] obtain dpre w dpost where
    d: "d = dpre @ (k, w) # dpost" and v: "v = \<bar>t - w\<bar>"
    and p: "pre = diferencias t dpre" and q: "post = diferencias t dpost" by blast
  from a p v have "\<forall>p\<in>set dpre. \<bar>t - w\<bar> < \<bar>t - snd p\<bar>"
    by (auto simp: diferencias_def)
  moreover from b q v have "\<forall>p\<in>set dpost. \<bar>t - w\<bar> \<le> \<bar>t - snd p\<bar>"
    by (auto simp: diferencias_def)
  moreover from m have "genotipo_por_posicion d (Some t) = Inr (Some k)"
    by (simp add: genotipo_por_posicion_def)
  ultimately show ?thesis using d by blast
qed

subsection \<open>Reference parser invariants\<close>

lemma py_split_nonempty: "py_split c s \<noteq> []"
  by (induction s) (auto split: list.splits)

lemma set_dict_set: "set (dict_set k v d) \<subseteq> insert (k, v) (set d)"
  by (induction d) auto

lemma dict_set_nonempty: "dict_set k v d \<noteq> []"
  by (cases d) auto

lemma normalizar_estado_Inr: "normalizar_estado e = Inr k \<Longrightarrow> k \<in> estados_validos"
  by (auto simp: normalizar_estado_def estados_validos_def split: if_splits)

lemma procesar_estados_inv:
  "procesar_estados pf ests d = Inr d' \<Longrightarrow> distinct (keys d) \<Longrightarrow> set (keys d) \<subseteq> estados_validos
   \<Longrightarrow> distinct (keys d') \<and> set (keys d') \<subseteq> estados_validos \<and> (ests \<noteq> [] \<or> d \<noteq> [] \<longrightarrow> d' \<noteq> [])"
proof (induction ests arbitrary: d)
  case Nil
  then show ?case by simp
next
  case (Cons est rest)
  from Cons.prems(1) obtain e0 valor v k where
    k: "normalizar_estado (strip e0) = Inr k"
    and r: "procesar_estados pf rest (dict_set k v d) = Inr d'"
    by (auto split: sum.splits option.splits prod.splits simp: Let_def)
  from k have kv: "k \<in> estados_validos" by (rule normalizar_estado_Inr)
  from Cons.prems(2) have d1: "distinct (keys (dict_set k v d))" by (rule distinct_keys_dict_set)
  from Cons.prems(3) kv have d2: "set (keys (dict_set k v d)) \<subseteq> estados_validos"
    by (simp add: set_keys_dict_set)
  from Cons.IH[OF r d1 d2] show ?case by (simp add: dict_set_nonempty)
qed

lemma procesar_estados_keys:
  "procesar_estados pf ests d = Inr d' \<Longrightarrow> k \<in> set (keys d') \<Longrightarrow>
   k \<in> set (keys d) \<or>
   (\<exists>est\<in>set ests. \<exists>e0 valor. py_split CHR '':'' est = [e0, valor]
        \<and> normalizar_estado (strip e0) = Inr k)"
proof (induction ests arbitrary: d)
  case Nil
  then show ?case by simp
next
  case (Cons est rest)
  from Cons.prems(1) obtain e0 valor v k' where
    u: "desempaquetar2 (py_split CHR '':'' est) = Inr (e0, valor)"
    and n: "normalizar_estado (strip e0) = Inr k'"
    and r: "procesar_estados pf rest (dict_set k' v d) = Inr d'"
    by (auto split: sum.splits option.splits prod.splits simp: Let_def)
  from u have sp: "py_split CHR '':'' est = [e0, valor]"
    by (cases "py_split CHR '':'' est" rule: desempaquetar2.cases) auto
  from Cons.IH[OF r Cons.prems(2)] show ?case
  proof
    assume "k \<in> set (keys (dict_set k' v d))"
    then have "k = k' \<or> k \<in> set (keys d)" by (simp add: set_keys_dict_set)
    with sp n show ?thesis by auto
  next
    assume "\<exists>est\<in>set rest. \<exists>e0 valor. py_split CHR '':'' est = [e0, valor]
        \<and> normalizar_estado (strip e0) = Inr k"
    then show ?thesis by auto
  qed
qed

lemma bien_formadas_dict_set:
  assumes "bien_formadas ps" "d \<noteq> []" "distinct (keys d)" "set (keys d) \<subseteq> estados_validos"
  shows "bien_formadas (dict_set pos d ps)"
proof -
  have "snd p \<noteq> [] \<and> distinct (keys (snd p)) \<and> set (keys (snd p)) \<subseteq> estados_validos"
    if "p \<in> set (dict_set pos d ps)" for p
  proof -
    from that set_dict_set[of pos d ps] have "p = (pos, d) \<or> p \<in> set ps" by auto
    with assms show ?thesis unfolding bien_formadas_def by auto
  qed
  moreover from assms(1) have "distinct (keys (dict_set pos d ps))"
    unfolding bien_formadas_def by (simp add: distinct_keys_dict_set)
  ultimately show ?thesis unfolding bien_formadas_def by blast
qed

lemma procesar_entrada_Inr:
  assumes "procesar_entrada pf tm_entry ps = Inr ps'"
  shows "\<exists>pos estados_str d. py_split1 CHR '':'' tm_entry = [pos, estados_str]
           \<and> procesar_estados pf (py_split CHR '','' estados_str) [] = Inr d
           \<and> ps' = dict_set pos d ps"
proof -
  from assms obtain pos estados_str d where
    u: "desempaquetar2 (py_split1 CHR '':'' tm_entry) = Inr (pos, estados_str)"
    and e: "procesar_estados pf (py_split CHR '','' estados_str) [] = Inr d"
    and p: "ps' = dict_set pos d (dict_set pos [] ps)"
    by (auto simp: procesar_entrada_def Let_def split: sum.splits prod.splits)
  from u have "py_split1 CHR '':'' tm_entry = [pos, estados_str]"
    by (cases "py_split1 CHR '':'' tm_entry" rule: desempaquetar2.cases) auto
  moreover have "dict_set pos d (dict_set pos [] ps) = dict_set pos d ps"
    by (induction ps) auto
  ultimately show ?thesis using e p by auto
qed

lemma procesar_entrada_inv:
  assumes "procesar_entrada pf tm_entry ps = Inr ps'" "bien_formadas ps"
  shows "bien_formadas ps'"
proof -
  from procesar_entrada_Inr[OF assms(1)] obtain pos estados_str d where
    e: "procesar_estados pf (py_split CHR '','' estados_str) [] = Inr d"
    and p: "ps' = dict_set pos d ps" by blast
  from procesar_estados_inv[OF e] py_split_nonempty[of "CHR '',''" estados_str]
  have "distinct (keys d) \<and> set (keys d) \<subseteq> estados_validos \<and> d \<noteq> []"
    by (simp add: keys_def)
  with assms(2) p show ?thesis by (simp add: bien_formadas_dict_set)
qed

lemma procesar_tm_inv:
  "procesar_tm pf ts ps = Inr ps' \<Longrightarrow> bien_formadas ps \<Longrightarrow> bien_formadas ps'"
proof (induction ts arbitrary: ps)
  case Nil
  then show ?case by simp
next
  case (Cons tm_entry rest)
  from Cons.prems(1) obtain ps1 where
    a: "procesar_entrada pf tm_entry ps = Inr ps1" and b: "procesar_tm pf rest ps1 = Inr ps'"
    by (auto split: sum.splits)
  from procesar_entrada_inv[OF a Cons.prems(2)] Cons.IH[OF b] show ?case by blast
qed

lemma procesar_tm_bien_formadas: "procesar_tm pf ts [] = Inr ps \<Longrightarrow> bien_formadas ps"
  by (erule procesar_tm_inv) (simp add: bien_formadas_def keys_def)

lemma procesar_tm_origen:
  "procesar_tm pf ts ps0 = Inr ps \<Longrightarrow> (pos, d) \<in> set ps \<Longrightarrow>
   (pos, d) \<in> set ps0 \<or>
   (\<exists>tm_entry\<in>set ts. \<exists>estados_str. py_split1 CHR '':'' tm_entry = [pos, estados_str]
        \<and> procesar_estados pf (py_split CHR '','' estados_str) [] = Inr d)"
proof (induction ts arbitrary: ps0)
  case Nil
  then show ?case by simp
next
  case (Cons tm_entry rest)
  from Cons.prems(1) obtain ps1 where
    a: "procesar_entrada pf tm_entry ps0 = Inr ps1" and b: "procesar_tm pf rest ps1 = Inr ps"
    by (auto split: sum.splits)
  from procesar_entrada_Inr[OF a] obtain pos1 estados_str d1 where
    s: "py_split1 CHR '':'' tm_entry = [pos1, estados_str]"
    and e: "procesar_estados pf (py_split CHR '','' estados_str) [] = Inr d1"
    and p: "ps1 = dict_set pos1 d1 ps0" by blast
  from Cons.IH[OF b Cons.prems(2)] show ?case
  proof
    assume "(pos, d) \<in> set ps1"
    with p set_dict_set[of pos1 d1 ps0] have "(pos, d) = (pos1, d1) \<or> (pos, d) \<in> set ps0" by auto
    with s e show ?thesis by auto
  next
    assume "\<exists>tm_entry\<in>set rest. \<exists>estados_str. py_split1 CHR '':'' tm_entry = [pos, estados_str]
        \<and> procesar_estados pf (py_split CHR '','' estados_str) [] = Inr d"
    then show ?thesis by auto
  qed
qed

subsection \<open>Classification of a sample\<close>

lemma mapM_sum_nth:
  "mapM_sum f xs = Inr ys \<Longrightarrow> length ys = length xs \<and> (\<forall>i<length xs. f (xs ! i) = Inr (ys ! i))"
proof (induction xs arbitrary: ys)
  case Nil
  then show ?case by simp
next
  case (Cons x xs)
  from Cons.prems obtain y ys' where
    y: "f x = Inr y" and r: "mapM_sum f xs = Inr ys'" and e: "ys = y # ys'"
    by (auto split: sum.splits)
  from Cons.IH[OF r] y e show ?case by (auto simp: nth_Cons split: nat.splits)
qed




lemma estados_de_fila_nth:
  assumes "estados_de_fila pn ps fila = Inr es" "i < length ps" "ps ! i = (pos, d)"
  shows "genotipo_por_posicion d (tm_de_fila pn fila pos) = Inr (es ! i)"
  using mapM_sum_nth[OF assms(1)[unfolded estados_de_fila_def]] assms(2,3) by auto



lemma bien_formadas_mem:
  "bien_formadas ps \<Longrightarrow> (pos, d) \<in> set ps \<Longrightarrow>
   d \<noteq> [] \<and> distinct (keys d) \<and> set (keys d) \<subseteq> estados_validos"
  by (fastforce simp: bien_formadas_def)








text \<open>
  Claim C9. A state assigned to a sample at a locus is a key of that locus's dictionary, it
  is one of the three state names, and it is the normalisation of a state token of a
  \<^verbatim>\<open>-t\<close> entry given for that position.
\<close>

theorem estado_asignado_configurado:
  assumes "procesar_tm pf ts [] = Inr ps" and "i < length ps" and "ps ! i = (pos, d)"
    and "estados_de_fila pn ps fila = Inr es" and "es ! i = Some e"
  shows "e \<in> set (keys d) \<and> e \<in> {''Sensible'', ''Heterocigoto'', ''Resistente''}
         \<and> (\<exists>tm_entry\<in>set ts. \<exists>estados_str.
               py_split1 CHR '':'' tm_entry = [pos, estados_str]
               \<and> (\<exists>est\<in>set (py_split CHR '','' estados_str). \<exists>e0 valor.
                     py_split CHR '':'' est = [e0, valor]
                     \<and> normalizar_estado (strip e0) = Inr e))"
proof -
  from assms(1) have bf: "bien_formadas ps" by (rule procesar_tm_bien_formadas)
  from assms(2,3) have mem: "(pos, d) \<in> set ps" by (metis nth_mem)
  with bf have ne: "d \<noteq> []" and dk: "distinct (keys d)" and kv: "set (keys d) \<subseteq> estados_validos"
    using bien_formadas_mem by blast+
  from estados_de_fila_nth[OF assms(4) assms(2,3)] assms(5)
  have g: "genotipo_por_posicion d (tm_de_fila pn fila pos) = Inr (Some e)" by simp
  then obtain t where t: "tm_de_fila pn fila pos = Some t"
    by (cases "tm_de_fila pn fila pos") (auto simp: genotipo_por_posicion_def)
  from genotipo_por_posicion_split[OF ne, of t] g t obtain pre v post where
    s: "d = pre @ (e, v) # post" by auto
  then have ek: "e \<in> set (keys d)" by (auto simp: keys_def)
  with kv have ev: "e \<in> {''Sensible'', ''Heterocigoto'', ''Resistente''}"
    by (auto simp: estados_validos_def)
  from procesar_tm_origen[OF assms(1) mem] obtain tm_entry estados_str where
    en: "tm_entry \<in> set ts" and sp: "py_split1 CHR '':'' tm_entry = [pos, estados_str]"
    and pe: "procesar_estados pf (py_split CHR '','' estados_str) [] = Inr d" by auto
  from procesar_estados_keys[OF pe ek] obtain est e0 valor where
    "est \<in> set (py_split CHR '','' estados_str)" "py_split CHR '':'' est = [e0, valor]"
    "normalizar_estado (strip e0) = Inr e" by (auto simp: keys_def)
  with en sp ek ev show ?thesis by blast
qed

theorem estado_asignado_configurado_witness:
  "procesar_tm (map_of [(''81.81'', 81.81), (''82.36'', 82.36)]) [''1534:H:81.81,R:82.36''] []
     = Inr [(''1534'', [(''Heterocigoto'', 81.81), (''Resistente'', 82.36)])]
   \<and> (0::nat) < length [(''1534'', [(''Heterocigoto'', 81.81::real), (''Resistente'', 82.36)])]
   \<and> estados_de_fila (\<lambda>s. None) [(''1534'', [(''Heterocigoto'', 81.81), (''Resistente'', 82.36)])]
        (\<lambda>c. Numero 70) = Inr [Some ''Heterocigoto'']
   \<and> ''Heterocigoto'' \<in> set (keys [(''Heterocigoto'', 81.81::real), (''Resistente'', 82.36)])"
proof -
  have h1: "procesar_tm (map_of [(''81.81'', 81.81), (''82.36'', 82.36)]) [''1534:H:81.81,R:82.36''] []
     = Inr [(''1534'', [(''Heterocigoto'', 81.81), (''Resistente'', 82.36)])]"
    by (simp add: procesar_entrada_def py_split1_def normalizar_estado_def strip_def is_space_def
        lower_def lower_char_def startswith_def)
  have h0: "(0::nat) < length [(''1534'', [(''Heterocigoto'', 81.81::real), (''Resistente'', 82.36)])]"
    by simp
  have h4: "[(''1534'', [(''Heterocigoto'', 81.81::real), (''Resistente'', 82.36)])] ! 0
      = (''1534'', [(''Heterocigoto'', 81.81), (''Resistente'', 82.36)])"
    by simp
  have h3: "estados_de_fila (\<lambda>s. None) [(''1534'', [(''Heterocigoto'', 81.81), (''Resistente'', 82.36)])]
        (\<lambda>c. Numero 70) = Inr [Some ''Heterocigoto'']"
    by (simp add: tm_de_fila_def to_numeric_def estados_de_fila_def
        genotipo_por_posicion_def diferencias_def py_min_clave_def)
  have h5: "[Some ''Heterocigoto''] ! 0 = Some ''Heterocigoto''" by simp
  from estado_asignado_configurado[OF h1 h0 h4 h3 h5] h1 h0 h3 show ?thesis by blast
qed

subsection \<open>Genotype composer\<close>








subsection \<open>Number of loci\<close>

lemma py_split1_posicion: "py_split1 CHR '':'' tm_entry = [pos, estados_str] \<Longrightarrow> pos = posicion_de tm_entry"
  by (auto simp: py_split1_def posicion_de_def split: if_splits)

lemma procesar_tm_keys:
  "procesar_tm pf ts ps0 = Inr ps \<Longrightarrow> set (keys ps) = set (keys ps0) \<union> set (map posicion_de ts)"
proof (induction ts arbitrary: ps0)
  case Nil
  then show ?case by simp
next
  case (Cons tm_entry rest)
  from Cons.prems obtain ps1 where
    a: "procesar_entrada pf tm_entry ps0 = Inr ps1" and b: "procesar_tm pf rest ps1 = Inr ps"
    by (auto split: sum.splits)
  from procesar_entrada_Inr[OF a] obtain pos estados_str d where
    s: "py_split1 CHR '':'' tm_entry = [pos, estados_str]" and p: "ps1 = dict_set pos d ps0" by blast
  from py_split1_posicion[OF s] p have "set (keys ps1) = insert (posicion_de tm_entry) (set (keys ps0))"
    by (simp add: set_keys_dict_set)
  with Cons.IH[OF b] show ?case by auto
qed

text \<open>
  Claim C3, as amended. When a sequence of \<^verbatim>\<open>-t\<close> arguments parses, the number of
  loci of the mapping is the number of distinct position labels among the arguments; it
  is the number of arguments exactly when the labels are pairwise distinct. Parsing is a
  function of the sequence: the same sequence gives the same mapping.
\<close>

theorem numero_de_loci:
  assumes "procesar_tm pf ts [] = Inr ps"
  shows "length ps = card (set (map posicion_de ts))
         \<and> (length ps = length ts \<longleftrightarrow> distinct (map posicion_de ts))
         \<and> (\<forall>ts'. ts' = ts \<longrightarrow> procesar_tm pf ts' [] = Inr ps)"
proof -
  from assms have "bien_formadas ps" by (rule procesar_tm_bien_formadas)
  then have "distinct (keys ps)" by (simp add: bien_formadas_def)
  then have "card (set (keys ps)) = length (keys ps)" by (rule distinct_card)
  moreover from procesar_tm_keys[OF assms] have "set (keys ps) = set (map posicion_de ts)"
    by (simp add: keys_def)
  ultimately have l: "length ps = card (set (map posicion_de ts))" by (simp add: keys_def)
  have "card (set (map posicion_de ts)) = length (map posicion_de ts) \<longleftrightarrow> distinct (map posicion_de ts)"
    using card_distinct distinct_card by blast
  with l assms show ?thesis by simp
qed

text \<open>
  Two arguments for the same position parse into one locus: the second assignment
  \<^verbatim>\<open>posiciones[pos] = {}\<close> replaces the first.
\<close>

theorem numero_de_loci_counterexample:
  "procesar_tm (map_of [(''73.2'', 73.2), (''72.66'', 72.66)]) [''1016:S:73.2'', ''1016:H:72.66''] []
     = Inr [(''1016'', [(''Heterocigoto'', 72.66)])]
   \<and> length [(''1016'', [(''Heterocigoto'', 72.66::real)])] \<noteq> length [''1016:S:73.2'', ''1016:H:72.66'']"
  by (simp add: procesar_entrada_def py_split1_def normalizar_estado_def strip_def is_space_def
      lower_def lower_char_def startswith_def)

theorem numero_de_loci_witness:
  "procesar_tm (map_of [(''73.2'', 73.2), (''81.81'', 81.81)]) [''1016:S:73.2'', ''1534:H:81.81''] []
     = Inr [(''1016'', [(''Sensible'', 73.2)]), (''1534'', [(''Heterocigoto'', 81.81)])]
   \<and> distinct (map posicion_de [''1016:S:73.2'', ''1534:H:81.81''])
   \<and> length [(''1016'', [(''Sensible'', 73.2::real)]), (''1534'', [(''Heterocigoto'', 81.81)])]
       = length [''1016:S:73.2'', ''1534:H:81.81'']"
proof -
  have h1: "procesar_tm (map_of [(''73.2'', 73.2), (''81.81'', 81.81)]) [''1016:S:73.2'', ''1534:H:81.81''] []
     = Inr [(''1016'', [(''Sensible'', 73.2)]), (''1534'', [(''Heterocigoto'', 81.81)])]"
    by (simp add: procesar_entrada_def py_split1_def normalizar_estado_def strip_def is_space_def
        lower_def lower_char_def startswith_def)
  have h2: "distinct (map posicion_de [''1016:S:73.2'', ''1534:H:81.81''])"
    by (simp add: posicion_de_def)
  from numero_de_loci[OF h1] h1 h2 show ?thesis by blast
qed

subsection \<open>State tokens\<close>

lemma lower_char_eq_s: "lower_char c = CHR ''s'' \<longleftrightarrow> c = CHR ''s'' \<or> c = CHR ''S''"
  by (auto simp: lower_char_def split: if_splits)

lemma lower_char_eq_h: "lower_char c = CHR ''h'' \<longleftrightarrow> c = CHR ''h'' \<or> c = CHR ''H''"
  by (auto simp: lower_char_def split: if_splits)

lemma lower_char_eq_r: "lower_char c = CHR ''r'' \<longleftrightarrow> c = CHR ''r'' \<or> c = CHR ''R''"
  by (auto simp: lower_char_def split: if_splits)

lemma normalizar_estado_Cons:
  "normalizar_estado (c # cs) =
     (if c = CHR ''s'' \<or> c = CHR ''S'' then Inr ''Sensible''
      else if c = CHR ''h'' \<or> c = CHR ''H'' then Inr ''Heterocigoto''
      else if c = CHR ''r'' \<or> c = CHR ''R'' then Inr ''Resistente''
      else Inl (EstadoNoReconocido (c # cs)))"
  by (simp add: normalizar_estado_def startswith_def lower_def
      lower_char_eq_s lower_char_eq_h lower_char_eq_r)

lemma normalizar_estado_Nil: "normalizar_estado [] = Inl (EstadoNoReconocido [])"
  by (simp add: normalizar_estado_def startswith_def lower_def)

lemma procesar_estados_append:
  "procesar_estados pf (xs @ ys) d =
     (case procesar_estados pf xs d of Inl c \<Rightarrow> Inl c | Inr d' \<Rightarrow> procesar_estados pf ys d')"
  by (induction xs arbitrary: d) (auto split: sum.splits option.splits prod.splits simp: Let_def)

lemma procesar_tm_append:
  "procesar_tm pf (xs @ ys) ps =
     (case procesar_tm pf xs ps of Inl e \<Rightarrow> Inl e | Inr ps' \<Rightarrow> procesar_tm pf ys ps')"
  by (induction xs arbitrary: ps) (auto split: sum.splits)

lemma normalizar_estado_primera_letra:
  "normalizar_estado s =
     (if primera_letra CHR ''s'' CHR ''S'' s then Inr ''Sensible''
      else if primera_letra CHR ''h'' CHR ''H'' s then Inr ''Heterocigoto''
      else if primera_letra CHR ''r'' CHR ''R'' s then Inr ''Resistente''
      else Inl (EstadoNoReconocido s))"
  by (cases s) (simp_all add: primera_letra_def normalizar_estado_Nil normalizar_estado_Cons)

lemma procesar_estados_paso:
  assumes "procesar_estados pf ests_pre [] = Inr d0"
    and "py_split CHR '':'' est = [estado0, valor]" and "pf valor = Some v"
  shows "procesar_estados pf (ests_pre @ est # ests_post) [] =
           (case normalizar_estado (strip estado0) of
              Inl c \<Rightarrow> Inl c
            | Inr k \<Rightarrow> procesar_estados pf ests_post (dict_set k v d0))"
  using assms by (simp add: procesar_estados_append)

text \<open>
  Claim C5, as amended. At a state token that the parser reaches (the earlier entries and
  the earlier pairs of the entry parse, the pair splits in two at its colon) and whose
  value text is a number, the stripped token is normalised by its first letter in either
  case, \<open>s\<close> to \<^verbatim>\<open>Sensible\<close>, \<open>h\<close> to \<^verbatim>\<open>Heterocigoto\<close>, \<open>r\<close> to
  \<^verbatim>\<open>Resistente\<close>; with any other first character, or none, the run fails with the
  format error that carries the entry and the stripped token.
\<close>

theorem estado_normalizado_o_error:
  assumes "procesar_tm pf pre [] = Inr ps0"
    and "py_split1 CHR '':'' tm_entry = [pos, estados_str]"
    and "py_split CHR '','' estados_str = ests_pre @ est # ests_post"
    and "procesar_estados pf ests_pre [] = Inr d0"
    and "py_split CHR '':'' est = [estado0, valor]"
    and "pf valor = Some v"
  shows "(primera_letra CHR ''s'' CHR ''S'' (strip estado0) \<longrightarrow>
            procesar_estados pf (ests_pre @ [est]) [] = Inr (dict_set ''Sensible'' v d0))
       \<and> (primera_letra CHR ''h'' CHR ''H'' (strip estado0) \<longrightarrow>
            procesar_estados pf (ests_pre @ [est]) [] = Inr (dict_set ''Heterocigoto'' v d0))
       \<and> (primera_letra CHR ''r'' CHR ''R'' (strip estado0) \<longrightarrow>
            procesar_estados pf (ests_pre @ [est]) [] = Inr (dict_set ''Resistente'' v d0))
       \<and> (\<not> primera_letra CHR ''s'' CHR ''S'' (strip estado0)
          \<and> \<not> primera_letra CHR ''h'' CHR ''H'' (strip estado0)
          \<and> \<not> primera_letra CHR ''r'' CHR ''R'' (strip estado0) \<longrightarrow>
            procesar_tm pf (pre @ tm_entry # post) [] =
              Inl (ErrorFormato tm_entry (EstadoNoReconocido (strip estado0))))"
proof -
  have paso: "procesar_estados pf (ests_pre @ est # rest) [] =
           (case normalizar_estado (strip estado0) of
              Inl c \<Rightarrow> Inl c
            | Inr k \<Rightarrow> procesar_estados pf rest (dict_set k v d0))" for rest
    using assms(4,5,6) by (rule procesar_estados_paso)
  have s: "primera_letra CHR ''s'' CHR ''S'' (strip estado0) \<longrightarrow>
            procesar_estados pf (ests_pre @ [est]) [] = Inr (dict_set ''Sensible'' v d0)"
    by (simp add: paso normalizar_estado_primera_letra)
  have h: "primera_letra CHR ''h'' CHR ''H'' (strip estado0) \<longrightarrow>
            procesar_estados pf (ests_pre @ [est]) [] = Inr (dict_set ''Heterocigoto'' v d0)"
    by (auto simp: paso normalizar_estado_primera_letra primera_letra_def split: list.splits)
  have r: "primera_letra CHR ''r'' CHR ''R'' (strip estado0) \<longrightarrow>
            procesar_estados pf (ests_pre @ [est]) [] = Inr (dict_set ''Resistente'' v d0)"
    by (auto simp: paso normalizar_estado_primera_letra primera_letra_def split: list.splits)
  have e: "procesar_tm pf (pre @ tm_entry # post) [] =
              Inl (ErrorFormato tm_entry (EstadoNoReconocido (strip estado0)))"
    if "\<not> primera_letra CHR ''s'' CHR ''S'' (strip estado0)"
       "\<not> primera_letra CHR ''h'' CHR ''H'' (strip estado0)"
       "\<not> primera_letra CHR ''r'' CHR ''R'' (strip estado0)"
  proof -
    from that have "normalizar_estado (strip estado0) = Inl (EstadoNoReconocido (strip estado0))"
      by (simp add: normalizar_estado_primera_letra)
    with paso[of ests_post] assms(3)
    have "procesar_estados pf (py_split CHR '','' estados_str) [] =
            Inl (EstadoNoReconocido (strip estado0))" by simp
    with assms(2) have "procesar_entrada pf tm_entry ps0 = Inl (EstadoNoReconocido (strip estado0))"
      by (simp add: procesar_entrada_def)
    with assms(1) show ?thesis by (simp add: procesar_tm_append)
  qed
  from s h r e show ?thesis by blast
qed

text \<open>
  The value is converted before the token is normalised (line 88 before line 91): with a
  value that is not a number, the format error carries the conversion failure and not the
  unrecognised token.
\<close>

theorem estado_normalizado_o_error_counterexample:
  "normalizar_estado (strip ''X'') = Inl (EstadoNoReconocido ''X'')
   \<and> procesar_tm (map_of [(''73.2'', 73.2)]) [''1016:X:abc''] []
       = Inl (ErrorFormato ''1016:X:abc'' (FloatInvalido ''abc''))
   \<and> ErrorFormato ''1016:X:abc'' (FloatInvalido ''abc'')
       \<noteq> ErrorFormato ''1016:X:abc'' (EstadoNoReconocido ''X'')"
  by (simp add: procesar_entrada_def py_split1_def normalizar_estado_def strip_def is_space_def
      lower_def lower_char_def startswith_def)

theorem estado_normalizado_o_error_witness:
  "procesar_tm (map_of [(''73.2'', 73.2), (''72.66'', 72.66)]) [] [] = Inr []
   \<and> py_split1 CHR '':'' ''1016:s:73.2, X :72.66'' = [''1016'', ''s:73.2, X :72.66'']
   \<and> py_split CHR '','' ''s:73.2, X :72.66'' = [''s:73.2''] @ '' X :72.66'' # []
   \<and> procesar_estados (map_of [(''73.2'', 73.2), (''72.66'', 72.66)]) [''s:73.2''] []
        = Inr [(''Sensible'', 73.2)]
   \<and> py_split CHR '':'' '' X :72.66'' = ['' X '', ''72.66'']
   \<and> map_of [(''73.2'', 73.2::real), (''72.66'', 72.66)] ''72.66'' = Some 72.66
   \<and> strip '' X '' = ''X''
   \<and> procesar_tm (map_of [(''73.2'', 73.2), (''72.66'', 72.66)]) [''1016:s:73.2, X :72.66''] []
        = Inl (ErrorFormato ''1016:s:73.2, X :72.66'' (EstadoNoReconocido ''X''))"
proof -
  have h1: "procesar_tm (map_of [(''73.2'', 73.2), (''72.66'', 72.66)]) [] [] = Inr []" by simp
  have h2: "py_split1 CHR '':'' ''1016:s:73.2, X :72.66'' = [''1016'', ''s:73.2, X :72.66'']"
    by (simp add: py_split1_def)
  have h3: "py_split CHR '','' ''s:73.2, X :72.66'' = [''s:73.2''] @ '' X :72.66'' # []" by simp
  have h4: "procesar_estados (map_of [(''73.2'', 73.2), (''72.66'', 72.66)]) [''s:73.2''] []
        = Inr [(''Sensible'', 73.2)]"
    by (simp add: normalizar_estado_def strip_def is_space_def lower_def lower_char_def startswith_def)
  have h5: "py_split CHR '':'' '' X :72.66'' = ['' X '', ''72.66'']" by simp
  have h6: "map_of [(''73.2'', 73.2::real), (''72.66'', 72.66)] ''72.66'' = Some 72.66" by simp
  have h7: "strip '' X '' = ''X''" by (simp add: strip_def is_space_def)
  have h8: "\<not> primera_letra CHR ''s'' CHR ''S'' (strip '' X '')
          \<and> \<not> primera_letra CHR ''h'' CHR ''H'' (strip '' X '')
          \<and> \<not> primera_letra CHR ''r'' CHR ''R'' (strip '' X '')"
    by (simp add: h7 primera_letra_def)
  from estado_normalizado_o_error[OF h1 h2 h3 h4 h5 h6, of "[]"] h8
  have "procesar_tm (map_of [(''73.2'', 73.2), (''72.66'', 72.66)]) ([] @ ''1016:s:73.2, X :72.66'' # []) []
        = Inl (ErrorFormato ''1016:s:73.2, X :72.66'' (EstadoNoReconocido (strip '' X '')))"
    by blast
  then have "procesar_tm (map_of [(''73.2'', 73.2), (''72.66'', 72.66)]) [''1016:s:73.2, X :72.66''] []
        = Inl (ErrorFormato ''1016:s:73.2, X :72.66'' (EstadoNoReconocido ''X''))"
    by (simp only: h7 append_Nil)
  with h1 h2 h3 h4 h5 h6 h7 show ?thesis by blast
qed

subsection \<open>Failures of a run\<close>

lemma procesar_tm_Inl:
  "procesar_tm pf ts ps = Inl e \<Longrightarrow> \<exists>tm_entry\<in>set ts. \<exists>c. e = ErrorFormato tm_entry c"
  by (induction ts arbitrary: ps) (auto split: sum.splits)

lemma verificar_columnas_Inl:
  "\<exists>pos\<in>set poss. ''Tm_'' @ pos \<notin> set cols \<Longrightarrow>
   \<exists>pos\<in>set poss. ''Tm_'' @ pos \<notin> set cols
      \<and> verificar_columnas cols poss acc = Inl (ColumnaNoEncontrada (''Tm_'' @ pos))"
  by (induction poss arbitrary: acc) (auto simp: Let_def)

lemma mapM_sum_Inl: "mapM_sum f xs = Inl e \<Longrightarrow> \<exists>x\<in>set xs. f x = Inl e"
  by (induction xs) (auto split: sum.splits)

lemma foldM_sum_Inl: "foldM_sum f xs s = Inl e \<Longrightarrow> \<exists>x\<in>set xs. \<exists>s'. f x s' = Inl e"
  by (induction xs arbitrary: s) (auto split: sum.splits)

lemma dict_sumar_Inl: "dict_sumar a x r = Inl e \<Longrightarrow> e = KeyError a"
  by (induction r) (auto split: if_splits sum.splits)

lemma registro_porcentaje_Inl: "registro_porcentaje n p = Inl e \<Longrightarrow> e = ZeroDivisionError"
  by (auto simp: registro_porcentaje_def py_div_def split: if_splits)

lemma registro_alelo_Inl: "registro_alelo r n a = Inl e \<Longrightarrow> \<not> es_error_validacion e"
  by (auto simp: registro_alelo_def py_div_def split: option.splits if_splits)

lemma recuento_alelos_Inl: "recuento_alelos as gs = Inl e \<Longrightarrow> \<not> es_error_validacion e"
proof -
  assume "recuento_alelos as gs = Inl e"
  then obtain g s where "contar_en_genotipo as g s = Inl e"
    unfolding recuento_alelos_def by (blast dest: foldM_sum_Inl)
  then obtain a s' where "dict_sumar a (py_count g a) s' = Inl e"
    unfolding contar_en_genotipo_def by (auto split: if_splits dest: foldM_sum_Inl)
  then have "e = KeyError a" by (rule dict_sumar_Inl)
  then show ?thesis by simp
qed

lemma resumen_alelos_Inl: "resumen_alelos n gs = Inl e \<Longrightarrow> \<not> es_error_validacion e"
  unfolding resumen_alelos_def Let_def
  by (auto split: sum.splits dest!: recuento_alelos_Inl mapM_sum_Inl registro_porcentaje_Inl
      registro_alelo_Inl)

lemma resumen_estados_Inl: "resumen_estados ps col = Inl e \<Longrightarrow> \<not> es_error_validacion e"
  unfolding resumen_estados_def Let_def
  by (auto split: sum.splits list.splits dest!: mapM_sum_Inl registro_porcentaje_Inl)

lemma columna_genotipo_Inl: "columna_genotipo rs = Inl e \<Longrightarrow> \<not> es_error_validacion e"
  unfolding columna_genotipo_def by (auto dest!: mapM_sum_Inl split: option.splits)

lemma columna_estado_Inl: "columna_estado rs = Inl e \<Longrightarrow> \<not> es_error_validacion e"
  unfolding columna_estado_def by (auto dest!: mapM_sum_Inl split: list.splits)

lemma escribir_txt_Inl:
  "escribir_txt args ps rs ev = (ev', Inl e) \<Longrightarrow> \<not> es_error_validacion e"
  unfolding escribir_txt_def
  by (auto split: option.splits if_splits sum.splits
      dest: columna_genotipo_Inl columna_estado_Inl resumen_alelos_Inl resumen_estados_Inl)

lemma clasificar_fila_Inl: "clasificar_fila pn ps fila = Inl e \<Longrightarrow> e = MinVacio"
  unfolding clasificar_fila_def estados_de_fila_def genotipo_por_posicion_def py_min_clave_def
  by (auto split: sum.splits option.splits list.splits prod.splits dest!: mapM_sum_Inl)

lemma main_validacion_sin_escritura:
  assumes "snd (main env args) = Inl e" and "es_error_validacion e"
  shows "\<forall>ev\<in>set (fst (main env args)). \<not> es_escritura ev"
proof (cases "num_mutaciones args \<noteq> int (length (tm args))")
  case True
  then show ?thesis by (simp add: main_def)
next
  case n: False
  show ?thesis
  proof (cases "path_exists env (file_arg args)")
    case False
    with n show ?thesis by (simp add: main_def)
  next
    case p: True
    show ?thesis
    proof (cases "read_excel env (file_arg args)")
      case None
      with n p show ?thesis by (simp add: main_def)
    next
      case (Some df)
      show ?thesis
      proof (cases "procesar_tm (py_float env) (tm args) []")
        case (Inl e1)
        with n p Some show ?thesis by (simp add: main_def)
      next
        case (Inr ps)
        show ?thesis
        proof (cases "verificar_columnas (columnas df) (keys ps) []")
          case (Inl e2)
          with n p Some Inr show ?thesis by (simp add: main_def)
        next
          case v: (Inr cu)
          show ?thesis
          proof (cases "mapM_sum (clasificar_fila (pd_numeric env) ps) (filas df)")
            case (Inl e3)
            with n p Some Inr v show ?thesis by (simp add: main_def)
          next
            case r: (Inr rs)
            define ev where "ev = [ConsultaExiste (file_arg args), LeeExcel (file_arg args),
               EscribeExcel (output_arg args) rs, Imprime (ResultadosGuardados (output_arg args))]"
            from n p Some Inr v r have m: "main env args = escribir_txt args ps rs ev"
              by (simp add: main_def ev_def)
            obtain ev' res where er: "escribir_txt args ps rs ev = (ev', res)"
              by (cases "escribir_txt args ps rs ev")
            with m assms(1) have "escribir_txt args ps rs ev = (ev', Inl e)" by simp
            from escribir_txt_Inl[OF this] assms(2) show ?thesis by simp
          qed
        qed
      qed
    qed
  qed
qed

text \<open>
  Claim C6. A mismatch between \<^verbatim>\<open>-n\<close> and the number of \<^verbatim>\<open>-t\<close> arguments ends the run
  with the count error before any event at all; a missing input file, a malformed
  \<^verbatim>\<open>-t\<close> entry and a missing \<^verbatim>\<open>Tm_<pos>\<close> column end it with an error that names
  the file, the entry or the column, after only the existence check and the reading of
  the input. No run that ends with one of these four errors has written output.
\<close>

theorem fallos_antes_de_escribir:
  "(num_mutaciones args \<noteq> int (length (tm args)) \<longrightarrow>
      main env args = ([], Inl (ErrorCantidad (num_mutaciones args) (length (tm args)))))
   \<and> (num_mutaciones args = int (length (tm args)) \<and> \<not> path_exists env (file_arg args) \<longrightarrow>
      main env args = ([ConsultaExiste (file_arg args)], Inl (ArchivoNoEncontrado (file_arg args))))
   \<and> (num_mutaciones args = int (length (tm args)) \<and> path_exists env (file_arg args)
        \<and> read_excel env (file_arg args) = Some df
        \<and> procesar_tm (py_float env) (tm args) [] = Inl e \<longrightarrow>
      main env args = ([ConsultaExiste (file_arg args), LeeExcel (file_arg args)], Inl e)
      \<and> (\<exists>tm_entry\<in>set (tm args). \<exists>c. e = ErrorFormato tm_entry c))
   \<and> (num_mutaciones args = int (length (tm args)) \<and> path_exists env (file_arg args)
        \<and> read_excel env (file_arg args) = Some df
        \<and> procesar_tm (py_float env) (tm args) [] = Inr ps
        \<and> (\<exists>pos\<in>set (keys ps). ''Tm_'' @ pos \<notin> set (columnas df)) \<longrightarrow>
      (\<exists>pos\<in>set (keys ps). ''Tm_'' @ pos \<notin> set (columnas df)
         \<and> main env args = ([ConsultaExiste (file_arg args), LeeExcel (file_arg args)],
                             Inl (ColumnaNoEncontrada (''Tm_'' @ pos)))))
   \<and> (\<forall>e'. snd (main env args) = Inl e' \<and> es_error_validacion e' \<longrightarrow>
         (\<forall>ev\<in>set (fst (main env args)). \<not> es_escritura ev))"
proof (intro conjI impI allI)
  assume "num_mutaciones args \<noteq> int (length (tm args))"
  then show "main env args = ([], Inl (ErrorCantidad (num_mutaciones args) (length (tm args))))"
    by (simp add: main_def)
next
  assume "num_mutaciones args = int (length (tm args)) \<and> \<not> path_exists env (file_arg args)"
  then show "main env args = ([ConsultaExiste (file_arg args)], Inl (ArchivoNoEncontrado (file_arg args)))"
    by (simp add: main_def)
next
  assume a: "num_mutaciones args = int (length (tm args)) \<and> path_exists env (file_arg args)
        \<and> read_excel env (file_arg args) = Some df
        \<and> procesar_tm (py_float env) (tm args) [] = Inl e"
  then show "main env args = ([ConsultaExiste (file_arg args), LeeExcel (file_arg args)], Inl e)"
    by (simp add: main_def)
  from a show "\<exists>tm_entry\<in>set (tm args). \<exists>c. e = ErrorFormato tm_entry c"
    by (blast dest: procesar_tm_Inl)
next
  assume a: "num_mutaciones args = int (length (tm args)) \<and> path_exists env (file_arg args)
        \<and> read_excel env (file_arg args) = Some df
        \<and> procesar_tm (py_float env) (tm args) [] = Inr ps
        \<and> (\<exists>pos\<in>set (keys ps). ''Tm_'' @ pos \<notin> set (columnas df))"
  then have "\<exists>pos\<in>set (keys ps). ''Tm_'' @ pos \<notin> set (columnas df)" by blast
  from verificar_columnas_Inl[OF this, of "[]"] obtain pos where
    p: "pos \<in> set (keys ps)" "''Tm_'' @ pos \<notin> set (columnas df)"
    and v: "verificar_columnas (columnas df) (keys ps) [] = Inl (ColumnaNoEncontrada (''Tm_'' @ pos))"
    by blast
  from a v have "main env args = ([ConsultaExiste (file_arg args), LeeExcel (file_arg args)],
                             Inl (ColumnaNoEncontrada (''Tm_'' @ pos)))"
    by (simp add: main_def)
  with p show "\<exists>pos\<in>set (keys ps). ''Tm_'' @ pos \<notin> set (columnas df)
         \<and> main env args = ([ConsultaExiste (file_arg args), LeeExcel (file_arg args)],
                             Inl (ColumnaNoEncontrada (''Tm_'' @ pos)))"
    by blast
next
  fix e'
  assume "snd (main env args) = Inl e' \<and> es_error_validacion e'"
  then show "\<forall>ev\<in>set (fst (main env args)). \<not> es_escritura ev"
    using main_validacion_sin_escritura by blast
qed

theorem fallos_antes_de_escribir_witness:
  "main \<lparr> py_float = map_of [(''73.2'', 73.2)], pd_numeric = (\<lambda>s. None),
          path_exists = (\<lambda>p. True),
          read_excel = (\<lambda>p. Some \<lparr> columnas = [''Muestra''], filas = [\<lambda>c. Vacia] \<rparr>) \<rparr>
        \<lparr> num_mutaciones = 2, file_arg = ''datos.xlsx'', tm = [''1016:S:73.2''],
          output_arg = ''resultados.xlsx'', txt_arg = Some ''resumen.txt'' \<rparr>
     = ([], Inl (ErrorCantidad 2 1))
   \<and> main \<lparr> py_float = map_of [(''73.2'', 73.2)], pd_numeric = (\<lambda>s. None),
          path_exists = (\<lambda>p. False),
          read_excel = (\<lambda>p. None) \<rparr>
        \<lparr> num_mutaciones = 1, file_arg = ''datos.xlsx'', tm = [''1016:S:73.2''],
          output_arg = ''resultados.xlsx'', txt_arg = Some ''resumen.txt'' \<rparr>
     = ([ConsultaExiste ''datos.xlsx''], Inl (ArchivoNoEncontrado ''datos.xlsx''))
   \<and> main \<lparr> py_float = map_of [(''73.2'', 73.2)], pd_numeric = (\<lambda>s. None),
          path_exists = (\<lambda>p. True),
          read_excel = (\<lambda>p. Some \<lparr> columnas = [''Muestra''], filas = [\<lambda>c. Vacia] \<rparr>) \<rparr>
        \<lparr> num_mutaciones = 1, file_arg = ''datos.xlsx'', tm = [''1016''],
          output_arg = ''resultados.xlsx'', txt_arg = Some ''resumen.txt'' \<rparr>
     = ([ConsultaExiste ''datos.xlsx'', LeeExcel ''datos.xlsx''],
        Inl (ErrorFormato ''1016'' PocosValores))
   \<and> main \<lparr> py_float = map_of [(''73.2'', 73.2)], pd_numeric = (\<lambda>s. None),
          path_exists = (\<lambda>p. True),
          read_excel = (\<lambda>p. Some \<lparr> columnas = [''Muestra''], filas = [\<lambda>c. Vacia] \<rparr>) \<rparr>
        \<lparr> num_mutaciones = 1, file_arg = ''datos.xlsx'', tm = [''1016:S:73.2''],
          output_arg = ''resultados.xlsx'', txt_arg = Some ''resumen.txt'' \<rparr>
     = ([ConsultaExiste ''datos.xlsx'', LeeExcel ''datos.xlsx''],
        Inl (ColumnaNoEncontrada ''Tm_1016''))"
proof -
  define env where "env = \<lparr> py_float = map_of [(''73.2'', 73.2::real)], pd_numeric = (\<lambda>s. None),
          path_exists = (\<lambda>p. True),
          read_excel = (\<lambda>p. Some \<lparr> columnas = [''Muestra''], filas = [\<lambda>c. Vacia] \<rparr>) \<rparr>"
  define env' where "env' = \<lparr> py_float = map_of [(''73.2'', 73.2::real)], pd_numeric = (\<lambda>s. None),
          path_exists = (\<lambda>p. False), read_excel = (\<lambda>p. None) \<rparr>"
  define a1 where "a1 = \<lparr> num_mutaciones = 2, file_arg = ''datos.xlsx'', tm = [''1016:S:73.2''],
          output_arg = ''resultados.xlsx'', txt_arg = Some ''resumen.txt'' \<rparr>"
  define a2 where "a2 = \<lparr> num_mutaciones = 1, file_arg = ''datos.xlsx'', tm = [''1016:S:73.2''],
          output_arg = ''resultados.xlsx'', txt_arg = Some ''resumen.txt'' \<rparr>"
  define a3 where "a3 = \<lparr> num_mutaciones = 1, file_arg = ''datos.xlsx'', tm = [''1016''],
          output_arg = ''resultados.xlsx'', txt_arg = Some ''resumen.txt'' \<rparr>"
  have c1: "num_mutaciones a1 \<noteq> int (length (tm a1))" by (simp add: a1_def)
  have c2: "num_mutaciones a2 = int (length (tm a2)) \<and> \<not> path_exists env' (file_arg a2)"
    by (simp add: a2_def env'_def)
  have p3: "procesar_tm (py_float env) (tm a3) [] = Inl (ErrorFormato ''1016'' PocosValores)"
    by (simp add: a3_def env_def procesar_entrada_def py_split1_def)
  have c3: "num_mutaciones a3 = int (length (tm a3)) \<and> path_exists env (file_arg a3)
        \<and> read_excel env (file_arg a3) = Some \<lparr> columnas = [''Muestra''], filas = [\<lambda>c. Vacia] \<rparr>
        \<and> procesar_tm (py_float env) (tm a3) [] = Inl (ErrorFormato ''1016'' PocosValores)"
    using p3 by (simp add: a3_def env_def)
  have p4: "procesar_tm (py_float env) (tm a2) [] = Inr [(''1016'', [(''Sensible'', 73.2)])]"
    by (simp add: a2_def env_def procesar_entrada_def py_split1_def normalizar_estado_def strip_def
        is_space_def lower_def lower_char_def startswith_def)
  have c4: "num_mutaciones a2 = int (length (tm a2)) \<and> path_exists env (file_arg a2)
        \<and> read_excel env (file_arg a2) = Some \<lparr> columnas = [''Muestra''], filas = [\<lambda>c. Vacia] \<rparr>
        \<and> procesar_tm (py_float env) (tm a2) [] = Inr [(''1016'', [(''Sensible'', 73.2)])]
        \<and> (\<exists>pos\<in>set (keys [(''1016'', [(''Sensible'', 73.2::real)])]).
              ''Tm_'' @ pos \<notin> set (columnas \<lparr> columnas = [''Muestra''], filas = [\<lambda>c. Vacia] \<rparr>))"
    using p4 by (simp add: a2_def env_def keys_def)
  from fallos_antes_de_escribir[where args = a1 and env = env] c1
  have r1: "main env a1 = ([], Inl (ErrorCantidad 2 1))" by (simp add: a1_def)
  from fallos_antes_de_escribir[where args = a2 and env = env'] c2
  have r2: "main env' a2 = ([ConsultaExiste ''datos.xlsx''], Inl (ArchivoNoEncontrado ''datos.xlsx''))"
    by (simp add: a2_def)
  from fallos_antes_de_escribir[where args = a3 and env = env
      and df = "\<lparr> columnas = [''Muestra''], filas = [\<lambda>c. Vacia] \<rparr>"
      and e = "ErrorFormato ''1016'' PocosValores"] c3
  have r3: "main env a3 = ([ConsultaExiste ''datos.xlsx'', LeeExcel ''datos.xlsx''],
        Inl (ErrorFormato ''1016'' PocosValores))" by (simp add: a3_def)
  from fallos_antes_de_escribir[where args = a2 and env = env
      and df = "\<lparr> columnas = [''Muestra''], filas = [\<lambda>c. Vacia] \<rparr>"
      and ps = "[(''1016'', [(''Sensible'', 73.2)])]"] c4
  have r4: "main env a2 = ([ConsultaExiste ''datos.xlsx'', LeeExcel ''datos.xlsx''],
        Inl (ColumnaNoEncontrada ''Tm_1016''))" by (simp add: a2_def keys_def)
  from r1 r2 r3 r4 show ?thesis unfolding env_def env'_def a1_def a2_def a3_def by blast
qed

subsection \<open>Multi-locus summary\<close>

lemma digit_char_inj: "m < 10 \<Longrightarrow> n < 10 \<Longrightarrow> digit_char m = digit_char n \<Longrightarrow> m = n"
proof -
  assume a: "m < 10" "n < 10" "digit_char m = digit_char n"
  have d: "distinct ''0123456789''" by simp
  have l: "length ''0123456789'' = 10" by simp
  from a l show ?thesis
    unfolding digit_char_def using nth_eq_iff_index_eq[OF d, of m n] by simp
qed

lemma str_nat_nonempty: "str_nat n \<noteq> []"
  by (subst str_nat.simps) simp

lemma str_nat_inj: "str_nat m = str_nat n \<Longrightarrow> m = n"
proof (induction m arbitrary: n rule: less_induct)
  case (less m)
  show ?case
  proof (cases "m < 10")
    case m: True
    show ?thesis
    proof (cases "n < 10")
      case True
      with m less.prems show ?thesis
        by (simp add: str_nat.simps[of m] str_nat.simps[of n] digit_char_inj)
    next
      case False
      with m less.prems have "[digit_char m] = str_nat (n div 10) @ [digit_char (n mod 10)]"
        by (simp add: str_nat.simps[of m] str_nat.simps[of n])
      with str_nat_nonempty[of "n div 10"] show ?thesis by simp
    qed
  next
    case m: False
    show ?thesis
    proof (cases "n < 10")
      case True
      with m less.prems have "str_nat (m div 10) @ [digit_char (m mod 10)] = [digit_char n]"
        by (simp add: str_nat.simps[of m] str_nat.simps[of n])
      with str_nat_nonempty[of "m div 10"] show ?thesis by simp
    next
      case False
      with m less.prems have
        "str_nat (m div 10) @ [digit_char (m mod 10)] = str_nat (n div 10) @ [digit_char (n mod 10)]"
        by (simp add: str_nat.simps[of m] str_nat.simps[of n])
      then have a: "str_nat (m div 10) = str_nat (n div 10)"
        and b: "digit_char (m mod 10) = digit_char (n mod 10)" by auto
      from m have "m div 10 < m" by simp
      from less.IH[OF this a] have q: "m div 10 = n div 10" .
      from b have r: "m mod 10 = n mod 10" by (auto intro: digit_char_inj)
      from q r show ?thesis by (metis div_mult_mod_eq)
    qed
  qed
qed

lemma alelos_hr_Suc:
  "alelos_hr (Suc n) = alelos_hr n @ [''H'' @ str_nat (n + 1), ''R'' @ str_nat (n + 1)]"
  by (simp add: alelos_hr_def)

lemma set_alelos_hr:
  "set (alelos_hr n) = (\<lambda>i. ''H'' @ str_nat i) ` {1..n} \<union> (\<lambda>i. ''R'' @ str_nat i) ` {1..n}"
proof (induction n)
  case 0
  then show ?case by (simp add: alelos_hr_def)
next
  case (Suc n)
  have "{1..Suc n} = insert (Suc n) {1..n}" by auto
  with Suc show ?case by (simp add: alelos_hr_Suc) blast
qed

lemma distinct_alelos_hr: "distinct (alelos_hr n)"
proof (induction n)
  case 0
  then show ?case by (simp add: alelos_hr_def)
next
  case (Suc n)
  have "''H'' @ str_nat (Suc n) \<notin> set (alelos_hr n)"
    by (auto simp: set_alelos_hr dest: str_nat_inj)
  moreover have "''R'' @ str_nat (Suc n) \<notin> set (alelos_hr n)"
    by (auto simp: set_alelos_hr dest: str_nat_inj)
  ultimately show ?case using Suc by (simp add: alelos_hr_Suc)
qed

lemma alelos_posibles_hr: "alelos_posibles n = alelos_hr n @ [''S'']"
  by (simp add: alelos_posibles_def alelos_hr_def)

lemma distinct_alelos_posibles: "distinct (alelos_posibles n)"
  by (auto simp: alelos_posibles_hr distinct_alelos_hr set_alelos_hr)


lemma dict_set_nuevo: "k \<notin> set (keys d) \<Longrightarrow> dict_set k v d = d @ [(k, v)]"
  by (induction d) (auto simp: keys_def)

lemma fold_dict_set_ceros:
  "distinct as \<Longrightarrow> set as \<inter> set (keys d) = {} \<Longrightarrow>
   fold (\<lambda>a d. dict_set a (0::nat) d) as d = d @ map (\<lambda>a. (a, 0)) as"
proof (induction as arbitrary: d)
  case Nil
  then show ?case by simp
next
  case (Cons a as)
  from Cons.prems have n: "a \<notin> set (keys d)" by auto
  then have s: "dict_set a 0 d = d @ [(a, 0)]" by (rule dict_set_nuevo)
  from Cons.prems have "set as \<inter> set (keys (d @ [(a, 0)])) = {}" by (auto simp: keys_def)
  with Cons.IH[of "d @ [(a, 0)]"] Cons.prems s show ?case by simp
qed

lemma dict_sumar_map:
  "a \<in> set ks \<Longrightarrow> distinct ks \<Longrightarrow>
   dict_sumar a x (map (\<lambda>k. (k, f k)) ks) = Inr (map (\<lambda>k. (k, if k = a then f k + x else f k)) ks)"
proof (induction ks)
  case Nil
  then show ?case by simp
next
  case (Cons k ks)
  show ?case
  proof (cases "k = a")
    case True
    with Cons.prems have "a \<notin> set ks" by simp
    then have "map (\<lambda>k. (k, if k = a then f k + x else f k)) ks = map (\<lambda>k. (k, f k)) ks"
      by (induction ks) auto
    with True show ?thesis by simp
  next
    case False
    with Cons show ?thesis by simp
  qed
qed

lemma foldM_dict_sumar:
  "distinct as \<Longrightarrow> set as \<subseteq> set ks \<Longrightarrow> distinct ks \<Longrightarrow>
   foldM_sum (\<lambda>a r. dict_sumar a (c a) r) as (map (\<lambda>k. (k, f k)) ks)
     = Inr (map (\<lambda>k. (k, f k + (if k \<in> set as then c k else 0))) ks)"
proof (induction as arbitrary: f)
  case Nil
  then show ?case by simp
next
  case (Cons a as)
  from Cons.prems have a: "a \<in> set ks" "a \<notin> set as" "distinct as" "set as \<subseteq> set ks" by auto
  let ?f = "\<lambda>k. if k = a then f k + c a else f k"
  from dict_sumar_map[OF a(1) Cons.prems(3), of "c a" f]
  have "foldM_sum (\<lambda>a r. dict_sumar a (c a) r) (a # as) (map (\<lambda>k. (k, f k)) ks)
      = foldM_sum (\<lambda>a r. dict_sumar a (c a) r) as (map (\<lambda>k. (k, ?f k)) ks)" by simp
  also from Cons.IH[OF a(3,4) Cons.prems(3), of ?f]
  have "\<dots> = Inr (map (\<lambda>k. (k, ?f k + (if k \<in> set as then c k else 0))) ks)" .
  also from a(2) have "map (\<lambda>k. (k, ?f k + (if k \<in> set as then c k else 0))) ks
      = map (\<lambda>k. (k, f k + (if k \<in> set (a # as) then c k else 0))) ks" by auto
  finally show ?case .
qed

lemma contar_en_genotipo_map:
  assumes "distinct as"
  shows "contar_en_genotipo as g (map (\<lambda>k. (k, f k)) as)
     = Inr (map (\<lambda>k. (k, f k + (if g \<noteq> no_determinado then py_count g k else 0))) as)"
proof (cases "g \<noteq> no_determinado")
  case True
  from foldM_dict_sumar[OF assms subset_refl assms, of "py_count g" f] True
  show ?thesis by (simp add: contar_en_genotipo_def cong: map_cong)
next
  case False
  then show ?thesis by (simp add: contar_en_genotipo_def)
qed

lemma ocurrencias_Cons:
  "ocurrencias (g # gs) a = (if g \<noteq> no_determinado then py_count g a else 0) + ocurrencias gs a"
  by (simp add: ocurrencias_def)

lemma foldM_contar_en_genotipo:
  assumes "distinct as"
  shows "foldM_sum (contar_en_genotipo as) gs (map (\<lambda>k. (k, f k)) as)
     = Inr (map (\<lambda>k. (k, f k + ocurrencias gs k)) as)"
proof (induction gs arbitrary: f)
  case Nil
  then show ?case by (simp add: ocurrencias_def)
next
  case (Cons g gs)
  let ?f = "\<lambda>k. f k + (if g \<noteq> no_determinado then py_count g k else 0)"
  from contar_en_genotipo_map[OF assms, of g f] Cons.IH[of ?f]
  show ?case by (simp add: ocurrencias_Cons add.assoc)
qed

lemma recuento_alelos_forma:
  assumes "distinct as"
  shows "recuento_alelos as gs = Inr (map (\<lambda>a. (a, ocurrencias gs a)) as)"
proof -
  from fold_dict_set_ceros[OF assms, of "[]"]
  have "fold (\<lambda>a d. dict_set a (0::nat) d) as [] = map (\<lambda>a. (a, 0)) as" by (simp add: keys_def)
  with foldM_contar_en_genotipo[OF assms, of gs "\<lambda>a. 0"] show ?thesis
    by (simp add: recuento_alelos_def)
qed

lemma mapM_sum_map: "(\<forall>x\<in>set xs. f x = Inr (g x)) \<Longrightarrow> mapM_sum f xs = Inr (map g xs)"
  by (induction xs) auto

lemma dict_get_map_clave:
  "a \<in> set as \<Longrightarrow> dict_get (map (\<lambda>a. (a, h a)) as) a = Some (h a)"
  by (induction as) (auto simp: dict_get_def)

lemma registro_alelo_forma:
  assumes "a \<in> set as"
  shows "registro_alelo (map (\<lambda>a. (a, h a)) as) t a =
     Inr (Registro a (h a) (if 0 < t then real (h a) / real t * 100 else 0))"
  using dict_get_map_clave[OF assms, of h] by (simp add: registro_alelo_def py_div_def)

lemma Counter_Nil: "Counter [] = []"
  by (simp add: Counter_def)

lemma resumen_alelos_forma:
  "resumen_alelos n gs =
     Inr ([TituloGenotipos, Cabecera ''Genotipo'']
          @ map (\<lambda>p. Registro (fst p) (snd p) (real (snd p) / real (length gs) * 100)) (Counter gs)
          @ [TituloAlelos, Cabecera ''Alelo'']
          @ map (\<lambda>a. Registro a (ocurrencias gs a)
                   (if 0 < total_ocurrencias n gs
                    then real (ocurrencias gs a) / real (total_ocurrencias n gs) * 100 else 0))
              (alelos_posibles n))"
proof -
  let ?as = "alelos_posibles n"
  let ?rec = "map (\<lambda>a. (a, ocurrencias gs a)) ?as"
  have r: "recuento_alelos ?as gs = Inr ?rec"
    by (rule recuento_alelos_forma) (rule distinct_alelos_posibles)
  have "Counter gs = [] \<or> 0 < length gs" by (cases gs) (simp_all add: Counter_Nil)
  then have g: "mapM_sum (registro_porcentaje (length gs)) (Counter gs) =
     Inr (map (\<lambda>p. Registro (fst p) (snd p) (real (snd p) / real (length gs) * 100)) (Counter gs))"
    by (rule mapM_sum_registro_porcentaje)
  have t: "sum_list (dict_values ?rec) = total_ocurrencias n gs"
    by (simp add: dict_values_def total_ocurrencias_def comp_def)
  have a: "mapM_sum (registro_alelo ?rec (total_ocurrencias n gs)) ?as =
     Inr (map (\<lambda>a. Registro a (ocurrencias gs a)
                   (if 0 < total_ocurrencias n gs
                    then real (ocurrencias gs a) / real (total_ocurrencias n gs) * 100 else 0)) ?as)"
    by (rule mapM_sum_map) (simp add: registro_alelo_forma)
  show ?thesis
    unfolding resumen_alelos_def Let_def by (simp only: r g t a sum.case append_Cons append_Nil)
qed


lemma str_nat_1: "str_nat (Suc 0) = ''1''"
  by (simp add: str_nat.simps[of "Suc 0"] digit_char_def)

lemma str_nat_2: "str_nat (Suc (Suc 0)) = ''2''"
  by (simp add: str_nat.simps[of "Suc (Suc 0)"] digit_char_def)

lemma alelos_posibles_2: "alelos_posibles 2 = [''H1'', ''R1'', ''H2'', ''R2'', ''S'']"
proof -
  have "[0..<2] = [0, Suc 0]" by (simp add: numeral_2_eq_2)
  then show ?thesis by (simp add: alelos_posibles_def str_nat_1 str_nat_2)
qed


text \<open>
  An occurrence is a substring occurrence, as \<^verbatim>\<open>g.count(a)\<close> finds it: in a genotype of
  ten loci the token \<open>H1\<close> also occurs inside the token \<open>H10\<close>.
\<close>

lemma ocurrencia_dentro_de_otro_token:
  "py_count ''SSSSSSSSSH10'' ''H1'' = 1 \<and> py_count ''SSSSSSSSSH10'' ''H10'' = 1"
  by (simp add: py_count_def startswith_def)

lemma ocurrencias_todos_indeterminados:
  "\<forall>g\<in>set gs. g = no_determinado \<Longrightarrow> ocurrencias gs a = 0"
  by (induction gs) (auto simp: ocurrencias_def)

text \<open>
  Claim C10. When the total number of allele occurrences is zero, as it is when every
  genotype is the undetermined one, the summary is still produced and every allele row
  carries the count 0 and the percentage 0.
\<close>

theorem alelos_sin_division_por_cero:
  "(total_ocurrencias n gs = 0 \<longrightarrow>
      resumen_alelos n gs =
        Inr ([TituloGenotipos, Cabecera ''Genotipo'']
             @ map (\<lambda>p. Registro (fst p) (snd p) (real (snd p) / real (length gs) * 100)) (Counter gs)
             @ [TituloAlelos, Cabecera ''Alelo'']
             @ map (\<lambda>a. Registro a 0 0) (alelos_posibles n)))
   \<and> ((\<forall>g\<in>set gs. g = no_determinado) \<longrightarrow> total_ocurrencias n gs = 0)"
proof (intro conjI impI)
  assume z: "total_ocurrencias n gs = 0"
  then have "\<forall>a\<in>set (alelos_posibles n). ocurrencias gs a = 0"
    by (simp add: total_ocurrencias_def)
  then have "map (\<lambda>a. Registro a (ocurrencias gs a)
                   (if 0 < total_ocurrencias n gs
                    then real (ocurrencias gs a) / real (total_ocurrencias n gs) * 100 else 0))
              (alelos_posibles n) = map (\<lambda>a. Registro a 0 0) (alelos_posibles n)"
    using z by simp
  with resumen_alelos_forma[of n gs] show "resumen_alelos n gs =
        Inr ([TituloGenotipos, Cabecera ''Genotipo'']
             @ map (\<lambda>p. Registro (fst p) (snd p) (real (snd p) / real (length gs) * 100)) (Counter gs)
             @ [TituloAlelos, Cabecera ''Alelo'']
             @ map (\<lambda>a. Registro a 0 0) (alelos_posibles n))"
    by simp
next
  assume "\<forall>g\<in>set gs. g = no_determinado"
  then show "total_ocurrencias n gs = 0"
    by (simp add: total_ocurrencias_def ocurrencias_todos_indeterminados)
qed

theorem alelos_sin_division_por_cero_witness:
  "no_determinado = ''No se pudo determinar''
   \<and> total_ocurrencias 2 [''No se pudo determinar'', ''No se pudo determinar''] = 0
   \<and> resumen_alelos 2 [''No se pudo determinar'', ''No se pudo determinar'']
     = Inr [TituloGenotipos, Cabecera ''Genotipo'',
            Registro ''No se pudo determinar'' 2 100,
            TituloAlelos, Cabecera ''Alelo'',
            Registro ''H1'' 0 0, Registro ''R1'' 0 0, Registro ''H2'' 0 0,
            Registro ''R2'' 0 0, Registro ''S'' 0 0]"
proof -
  note a = alelos_posibles_2
  have c: "Counter [''No se pudo determinar'', ''No se pudo determinar'']
      = [(''No se pudo determinar'', 2)]"
    by (simp add: Counter_def counter_add_def dict_get_def)
  have h: "\<forall>g\<in>set [''No se pudo determinar'', ''No se pudo determinar'']. g = no_determinado"
    by (simp add: no_determinado_def)
  from alelos_sin_division_por_cero[of 2 "[''No se pudo determinar'', ''No se pudo determinar'']"] h
  have z: "total_ocurrencias 2 [''No se pudo determinar'', ''No se pudo determinar''] = 0" by blast
  from alelos_sin_division_por_cero[of 2 "[''No se pudo determinar'', ''No se pudo determinar'']"] z
  have "resumen_alelos 2 [''No se pudo determinar'', ''No se pudo determinar'']
     = Inr [TituloGenotipos, Cabecera ''Genotipo'',
            Registro ''No se pudo determinar'' 2 100,
            TituloAlelos, Cabecera ''Alelo'',
            Registro ''H1'' 0 0, Registro ''R1'' 0 0, Registro ''H2'' 0 0,
            Registro ''R2'' 0 0, Registro ''S'' 0 0]"
    by (simp add: a c)
  with z show ?thesis by (simp add: no_determinado_def)
qed

end
